theory Spec2Isabelle
  imports Complex_Main "HOL-Library.AList"
begin

section \<open>Python values and built-ins used by the signal bridge\<close>

text \<open>
  The bridge is Python. Its strings are modelled as \<^typ>\<open>string\<close>; one \<^typ>\<open>char\<close> stands for
  one code point in the range U+0000..U+00FF, and whitespace and case mapping are
  Python's on that range. Exceptions are values of \<open>py_error\<close>; a function that can raise
  returns \<open>py_error + 'a\<close>.
\<close>

datatype py_error =
    AttributeError | TypeError | KeyError | ValueError
  | ConnectionError | TimeoutError | RuntimeError | RequestException
  | ChatError

subsection \<open>Strings\<close>

definition is_space :: "char \<Rightarrow> bool" where
  \<comment> \<open>\<open>str.isspace\<close> on U+0000..U+00FF: TAB..CR, FS..US, space, NEL, NBSP\<close>
  "is_space c =
     (let n = (of_char c :: nat)
      in (9 \<le> n \<and> n \<le> 13) \<or> (28 \<le> n \<and> n \<le> 32) \<or> n = 133 \<or> n = 160)"

definition lower_char :: "char \<Rightarrow> char" where
  \<comment> \<open>\<open>str.lower\<close> on one code point: A..Z and the Latin-1 capitals (not the times sign)\<close>
  "lower_char c =
     (let n = (of_char c :: nat)
      in if (65 \<le> n \<and> n \<le> 90) \<or> (192 \<le> n \<and> n \<le> 222 \<and> n \<noteq> 215)
         then char_of (n + 32) else c)"

definition py_lower :: "string \<Rightarrow> string" where
  "py_lower s = map lower_char s"

definition lstrip_by :: "(char \<Rightarrow> bool) \<Rightarrow> string \<Rightarrow> string" where
  "lstrip_by p s = dropWhile p s"

definition rstrip_by :: "(char \<Rightarrow> bool) \<Rightarrow> string \<Rightarrow> string" where
  "rstrip_by p s = rev (dropWhile p (rev s))"

definition py_strip :: "string \<Rightarrow> string" where
  \<comment> \<open>\<open>s.strip()\<close>\<close>
  "py_strip s = lstrip_by is_space (rstrip_by is_space s)"

fun split_on :: "char \<Rightarrow> string \<Rightarrow> string list" where
  \<comment> \<open>\<open>s.split(sep)\<close> for a one-character separator\<close>
  "split_on sep [] = [[]]"
| "split_on sep (c # cs) =
     (if c = sep then [] # split_on sep cs
      else (case split_on sep cs of w # ws \<Rightarrow> (c # w) # ws | [] \<Rightarrow> [[c]]))"

definition is_digit :: "char \<Rightarrow> bool" where
  "is_digit c = (let n = (of_char c :: nat) in 48 \<le> n \<and> n \<le> 57)"

definition digit_val :: "char \<Rightarrow> nat" where
  "digit_val c = of_char c - 48"

fun grouped_digits :: "string \<Rightarrow> bool" where
  \<comment> \<open>decimal digits, single underscores allowed between two digits\<close>
  "grouped_digits [] = False"
| "grouped_digits [c] = is_digit c"
| "grouped_digits (c # d # cs) =
     (is_digit c \<and> (if d = CHR ''_'' then grouped_digits cs else grouped_digits (d # cs)))"

definition is_int_space :: "char \<Rightarrow> bool" where
  \<comment> \<open>the whitespace \<open>int\<close> accepts around a number: TAB..CR and space, and NEL and NBSP,
      which it turns into spaces first. Unlike \<open>str.strip\<close> it does not accept FS..US.\<close>
  "is_int_space c =
     (let n = (of_char c :: nat) in (9 \<le> n \<and> n \<le> 13) \<or> n = 32 \<or> n = 133 \<or> n = 160)"

definition py_int :: "string \<Rightarrow> int option" where
  \<comment> \<open>\<open>int(s)\<close> for a string; \<open>None\<close> stands for ValueError. A number of more than
      4300 digits is refused (the default limit of \<open>sys.set_int_max_str_digits\<close>).\<close>
  "py_int s =
     (let t = lstrip_by is_int_space (rstrip_by is_int_space s);
          neg = (case t of c # _ \<Rightarrow> c = CHR ''-'' | [] \<Rightarrow> False);
          body = (case t of c # r \<Rightarrow> if c = CHR ''-'' \<or> c = CHR ''+'' then r else t | [] \<Rightarrow> [])
      in if grouped_digits body \<and> length (filter is_digit body) \<le> 4300
         then Some ((if neg then - 1 else 1)
                * int (foldl (\<lambda>acc c. 10 * acc + digit_val c) 0 (filter is_digit body)))
         else None)"

subsection \<open>JSON values\<close>

text \<open>
  What \<open>json.load\<close> and \<open>response.json()\<close> return. A dict keeps its insertion order, so
  it is an association list; \<open>JNull\<close> is Python's \<open>None\<close>.
\<close>

datatype json = JNull | JBool bool | JInt int | JFloat real | JStr string
  | JArr "json list" | JObj "(string \<times> json) list"

fun truthy :: "json \<Rightarrow> bool" where
  \<comment> \<open>the truth value Python gives to a value in \<open>if v\<close>, \<open>not v\<close>, \<open>a or b\<close>\<close>
  "truthy JNull = False"
| "truthy (JBool b) = b"
| "truthy (JInt i) = (i \<noteq> 0)"
| "truthy (JFloat x) = (x \<noteq> 0)"
| "truthy (JStr s) = (s \<noteq> [])"
| "truthy (JArr xs) = (xs \<noteq> [])"
| "truthy (JObj kvs) = (kvs \<noteq> [])"

fun py_get :: "json \<Rightarrow> string \<Rightarrow> json \<Rightarrow> py_error + json" where
  \<comment> \<open>\<open>d.get(key, default)\<close>; only a dict has the method\<close>
  "py_get (JObj kvs) key dflt = Inr (case map_of kvs key of Some v \<Rightarrow> v | None \<Rightarrow> dflt)"
| "py_get _ key dflt = Inl AttributeError"

section \<open>task\_config.py: configuration persistence\<close>

definition DEFAULT_CONFIG :: "(string \<times> json) list" where
  "DEFAULT_CONFIG =
     [(''tasks'', JObj
        [(''morning_briefing'', JObj [(''enabled'', JBool True), (''time'', JStr ''07:00'')]),
         (''weather_check_07:00'', JObj [(''enabled'', JBool True), (''time'', JStr ''07:00'')]),
         (''weather_check_12:00'', JObj [(''enabled'', JBool True), (''time'', JStr ''12:00'')]),
         (''weather_check_18:00'', JObj [(''enabled'', JBool True), (''time'', JStr ''18:00'')]),
         (''aurora_check_12:00'', JObj [(''enabled'', JBool True), (''time'', JStr ''12:00'')]),
         (''aurora_check_18:00'', JObj [(''enabled'', JBool True), (''time'', JStr ''18:00'')]),
         (''system_health'', JObj [(''enabled'', JBool True), (''interval_minutes'', JInt 30)]),
         (''yt_download'', JObj [(''enabled'', JBool False), (''time'', JStr ''04:00'')])]),
      (''yt_downloader'', JObj
        [(''max_videos_per_channel'', JInt 3),
         (''channels'', JArr [])]),
      (''heartbeat'', JObj
        [(''quiet_start'', JStr ''21:00''),
         (''quiet_end'', JStr ''06:00'')])]"

function (sequential) deep_merge ::
  "(string \<times> json) list \<Rightarrow> (string \<times> json) list \<Rightarrow> (string \<times> json) list" where
  \<comment> \<open>\<open>_deep_merge(base, override)\<close>: the first argument is \<open>result\<close>, which starts as a
      copy of \<open>base\<close>; the second is what is left of \<open>override.items()\<close>\<close>
  "deep_merge result [] = result"
| "deep_merge result ((key, val) # rest) =
     deep_merge
       (case (map_of result key, val) of
          (Some (JObj b), JObj ov) \<Rightarrow> AList.update key (JObj (deep_merge b ov)) result
        | _ \<Rightarrow> AList.update key val result)
       rest"
  by pat_completeness auto
termination
  by (relation "measure (\<lambda>(r, ov). size_list (size_prod (\<lambda>_. 0) size) ov)") auto

text \<open>
  The configuration file \<open>bridge-config.json\<close>: missing, present but not readable as JSON,
  or holding a document. \<open>json.dump\<close> followed by \<open>json.load\<close> gives back the document
  written, so the file holds the document itself. A write fails as a whole when the file
  cannot be opened for writing.
\<close>

datatype file_state = Absent | Unreadable | Stored json

record filesystem =
  config_file :: file_state
  config_writable :: bool

definition save_config :: "json \<Rightarrow> filesystem \<Rightarrow> bool \<times> filesystem" where
  "save_config config fs =
     (if config_writable fs then (True, fs\<lparr>config_file := Stored config\<rparr>)
      else (False, fs))"

definition load_config :: "filesystem \<Rightarrow> json \<times> filesystem" where
  \<comment> \<open>every exception inside is caught and answered with the defaults\<close>
  "load_config fs =
     (case config_file fs of
        Stored config \<Rightarrow>
          (case config of
             JObj ov \<Rightarrow> (JObj (deep_merge DEFAULT_CONFIG ov), fs)
           | _ \<Rightarrow> (JObj DEFAULT_CONFIG, fs))
      | Unreadable \<Rightarrow> (JObj DEFAULT_CONFIG, fs)
      | Absent \<Rightarrow> (JObj DEFAULT_CONFIG, snd (save_config (JObj DEFAULT_CONFIG) fs)))"

definition is_task_enabled :: "string \<Rightarrow> filesystem \<Rightarrow> (py_error + json) \<times> filesystem" where
  \<comment> \<open>\<open>config.get("tasks", {}).get(task_id, {}).get("enabled", True)\<close>\<close>
  "is_task_enabled task_id fs =
     (let (config, fs') = load_config fs
      in (case py_get config ''tasks'' (JObj []) of
            Inl e \<Rightarrow> Inl e
          | Inr tasks \<Rightarrow>
              (case py_get tasks task_id (JObj []) of
                 Inl e \<Rightarrow> Inl e
               | Inr task \<Rightarrow> py_get task ''enabled'' (JBool True)),
          fs'))"

definition parse_hh_mm :: "json \<Rightarrow> py_error + int \<times> int" where
  \<comment> \<open>\<open>h, m = map(int, value.split(":"))\<close>; a wrong number of parts and a part that is
      not an integer are both ValueError\<close>
  "parse_hh_mm v =
     (case v of
        JStr s \<Rightarrow>
          (case map py_int (split_on CHR '':'' s) of
             [Some h, Some m] \<Rightarrow> Inr (h, m)
           | _ \<Rightarrow> Inl ValueError)
      | _ \<Rightarrow> Inl AttributeError)"

definition is_quiet_period :: "int \<times> int \<Rightarrow> filesystem \<Rightarrow> (py_error + bool) \<times> filesystem" where
  \<comment> \<open>the first argument is \<open>(now.hour, now.minute)\<close> of \<open>datetime.now()\<close>\<close>
  "is_quiet_period now fs =
     (let (config, fs') = load_config fs
      in (case py_get config ''heartbeat'' (JObj []) of
            Inl e \<Rightarrow> Inl e
          | Inr heartbeat \<Rightarrow>
          (case py_get heartbeat ''quiet_start'' (JStr ''21:00'') of
            Inl e \<Rightarrow> Inl e
          | Inr quiet_start \<Rightarrow>
          (case py_get heartbeat ''quiet_end'' (JStr ''06:00'') of
            Inl e \<Rightarrow> Inl e
          | Inr quiet_end \<Rightarrow>
          (let current_minutes = fst now * 60 + snd now
           in (case parse_hh_mm quiet_start of
                 Inl e \<Rightarrow> Inl e
               | Inr (start_h, start_m) \<Rightarrow>
               (case parse_hh_mm quiet_end of
                 Inl e \<Rightarrow> Inl e
               | Inr (end_h, end_m) \<Rightarrow>
               (let start_minutes = start_h * 60 + start_m;
                    end_minutes = end_h * 60 + end_m
                in if start_minutes \<le> end_minutes
                   then Inr (start_minutes \<le> current_minutes \<and> current_minutes < end_minutes)
                   else Inr (current_minutes \<ge> start_minutes \<or> current_minutes < end_minutes))))))),
          fs'))"

subsection \<open>Comparing documents\<close>






section \<open>bridge.py: list-name aliases\<close>

definition LIST_ALIASES :: "(string \<times> string) list" where
  "LIST_ALIASES =
     [(''grocery'', ''groceries''),
      (''groceries'', ''groceries''),
      (''shopping'', ''groceries''),
      (''hardware'', ''hardware store''),
      (''todo'', ''to do'')]"

definition resolve_list_name :: "string \<Rightarrow> string" where
  \<comment> \<open>\<open>return self.LIST_ALIASES.get(name.lower(), name)\<close>\<close>
  "resolve_list_name name =
     (case map_of LIST_ALIASES (py_lower name) of Some target \<Rightarrow> target | None \<Rightarrow> name)"

section \<open>choom\_client.py: the companion client\<close>

text \<open>
  \<open>ChoomInfo\<close> and \<open>ChatResponse\<close> are the source's dataclasses. Times are the seconds of
  \<open>time.time()\<close>, as real numbers.
\<close>

record choom_info =
  ci_id :: string
  ci_name :: string
  ci_description :: json
  ci_voice_id :: json
  ci_companion_id :: json
  ci_llm_model :: json
  ci_llm_endpoint :: json
  ci_image_settings :: json

record chat_response =
  content :: string
  tool_calls :: "json list"
  tool_results :: "json list"
  images :: "json list"
  chat_id :: json

record choom_client =
  chooms :: "(string \<times> choom_info) list"
  chats :: "(string \<times> json) list"
  chooms_fetched_at :: real
  chooms_ttl :: real
  last_user_activity :: "string \<rightharpoonup> real"

text \<open>
  What the companion service answers during one call of \<open>send_message\<close>, and what the
  clock shows when the call reads it. Each endpoint is requested at most once in a call.
  A record of \<open>GET /api/chooms\<close> that lacks \<open>id\<close> or \<open>name\<close> is \<open>None\<close>: building its
  \<open>ChoomInfo\<close> raises. One line of the event stream of \<open>POST /api/chat\<close> is an \<open>sse_line\<close>.
\<close>

datatype sse_line =
    Blank | NotData | Undecodable
  | Content string | ToolCall json | ToolResult json
  | ImageGenerated json json json
  | Done | ErrorEvent | OtherEvent

record http_outcomes =
  clock_fresh :: real
  get_chooms :: "py_error + choom_info option list"
  clock_fetched :: real
  get_chat :: bool
  post_chats :: "py_error + json"
  build_settings :: "py_error option"
  post_chat :: "py_error + sse_line list"

definition record_user_activity :: "string \<Rightarrow> real \<Rightarrow> choom_client \<Rightarrow> choom_client" where
  \<comment> \<open>\<open>self._last_user_activity[choom_name.lower()] = time.time()\<close>; the second argument
      is what \<open>time.time()\<close> returns\<close>
  "record_user_activity choom_name now c =
     c\<lparr>last_user_activity := (last_user_activity c)(py_lower choom_name \<mapsto> now)\<rparr>"

definition is_user_active :: "string \<Rightarrow> real \<Rightarrow> real \<Rightarrow> choom_client \<Rightarrow> bool" where
  \<comment> \<open>\<open>last = self._last_user_activity.get(choom_name.lower(), 0);
      return (time.time() - last) < window_seconds\<close>\<close>
  "is_user_active choom_name window_seconds now c =
     (let last = (case last_user_activity c (py_lower choom_name) of Some t \<Rightarrow> t | None \<Rightarrow> 0)
      in now - last < window_seconds)"

fun load_chooms :: "choom_info option list \<Rightarrow> choom_client \<Rightarrow> py_error option \<times> choom_client" where
  \<comment> \<open>the loop of \<open>fetch_chooms\<close>: \<open>self.chooms[choom.name.lower()] = choom\<close>\<close>
  "load_chooms [] c = (None, c)"
| "load_chooms (None # rest) c = (Some KeyError, c)"
| "load_chooms (Some choom # rest) c =
     load_chooms rest (c\<lparr>chooms := AList.update (py_lower (ci_name choom)) choom (chooms c)\<rparr>)"

definition fetch_chooms ::
  "http_outcomes \<Rightarrow> choom_client \<Rightarrow> (py_error + choom_info list) \<times> choom_client" where
  "fetch_chooms env c =
     (case get_chooms env of
        Inl e \<Rightarrow> (Inl e, c)
      | Inr choom_list \<Rightarrow>
          (case load_chooms choom_list (c\<lparr>chooms := []\<rparr>) of
             (Some e, c') \<Rightarrow> (Inl e, c')
           | (None, c') \<Rightarrow> (Inr (map snd (chooms c')), c'\<lparr>chooms_fetched_at := clock_fetched env\<rparr>)))"

definition ensure_chooms_fresh :: "http_outcomes \<Rightarrow> choom_client \<Rightarrow> choom_client" where
  \<comment> \<open>a failed refresh is logged and the client goes on with what it has\<close>
  "ensure_chooms_fresh env c =
     (if chooms c = [] \<or> clock_fresh env - chooms_fetched_at c > chooms_ttl c
      then snd (fetch_chooms env c) else c)"

definition get_choom_by_name ::
  "string \<Rightarrow> http_outcomes \<Rightarrow> choom_client \<Rightarrow> choom_info option \<times> choom_client" where
  "get_choom_by_name name env c =
     (let c' = ensure_chooms_fresh env c in (map_of (chooms c') (py_lower name), c'))"

definition create_chat :: "string \<Rightarrow> http_outcomes \<Rightarrow> choom_client \<Rightarrow> (py_error + json) \<times> choom_client" where
  \<comment> \<open>the second half of \<open>get_or_create_chat\<close>: \<open>POST /api/chats\<close>, then
      \<open>self.chats[choom_id] = chat_id\<close>\<close>
  "create_chat choom_id env c =
     (case post_chats env of
        Inl e \<Rightarrow> (Inl e, c)
      | Inr new_id \<Rightarrow> (Inr new_id, c\<lparr>chats := AList.update choom_id new_id (chats c)\<rparr>))"

definition get_or_create_chat ::
  "string \<Rightarrow> http_outcomes \<Rightarrow> choom_client \<Rightarrow> (py_error + json) \<times> choom_client" where
  "get_or_create_chat choom_id env c =
     (case map_of (chats c) choom_id of
        Some existing \<Rightarrow> if get_chat env then (Inr existing, c) else create_chat choom_id env c
      | None \<Rightarrow> create_chat choom_id env c)"

fun read_stream :: "sse_line list \<Rightarrow> chat_response \<Rightarrow> py_error + chat_response" where
  \<comment> \<open>the loop over \<open>response.iter_lines\<close> in \<open>send_message\<close>\<close>
  "read_stream [] r = Inr r"
| "read_stream (Content s # rest) r = read_stream rest (r\<lparr>content := content r @ s\<rparr>)"
| "read_stream (ToolCall t # rest) r = read_stream rest (r\<lparr>tool_calls := tool_calls r @ [t]\<rparr>)"
| "read_stream (ToolResult t # rest) r = read_stream rest (r\<lparr>tool_results := tool_results r @ [t]\<rparr>)"
| "read_stream (ImageGenerated img_url img_id img_prompt # rest) r =
     read_stream rest
       (r\<lparr>images := images r @ [JObj [(''url'', img_url), (''id'', img_id), (''prompt'', img_prompt)]]\<rparr>)"
| "read_stream (Done # rest) r = Inr r"
| "read_stream (ErrorEvent # rest) r = Inl ChatError"
| "read_stream (_ # rest) r = read_stream rest r"

definition send_message ::
  "string \<Rightarrow> string \<Rightarrow> bool \<Rightarrow> http_outcomes \<Rightarrow> choom_client
     \<Rightarrow> (py_error + chat_response) \<times> choom_client" where
  \<comment> \<open>\<open>send_message(choom_name, message, settings, fresh_chat)\<close>. The settings block and
      the message enter only the request body; what the service answers is in \<open>env\<close>.\<close>
  "send_message choom_name message fresh_chat env c =
     (case get_choom_by_name choom_name env c of
        (None, c1) \<Rightarrow> (Inl ValueError, c1)
      | (Some choom, c1) \<Rightarrow>
          (case (if fresh_chat
                 then (case post_chats env of Inl e \<Rightarrow> (Inl e, c1) | Inr new_id \<Rightarrow> (Inr new_id, c1))
                 else get_or_create_chat (ci_id choom) env c1) of
             (Inl e, c2) \<Rightarrow> (Inl e, c2)
           | (Inr cid, c2) \<Rightarrow>
               (case build_settings env of
                  Some e \<Rightarrow> (Inl e, c2)
                | None \<Rightarrow>
                    (case post_chat env of
                       Inl e \<Rightarrow> (Inl e, c2)
                     | Inr lines \<Rightarrow>
                         (read_stream lines
                            \<lparr>content = [], tool_calls = [], tool_results = [], images = [],
                             chat_id = cid\<rparr>,
                          c2)))))"

section \<open>bridge.py: routing a message to a companion\<close>

definition process_message_send ::
  "string \<Rightarrow> string \<Rightarrow> real \<Rightarrow> http_outcomes \<Rightarrow> choom_client
     \<Rightarrow> (py_error + chat_response) \<times> choom_client" where
  \<comment> \<open>the two calls at the end of \<open>_process_message\<close>:
      \<open>self.choom.record_user_activity(choom_name)\<close>, then
      \<open>response = self.choom.send_message(choom_name, cleaned_message)\<close>;
      the third argument is the time the first call reads\<close>
  "process_message_send choom_name cleaned_message now env c =
     send_message choom_name cleaned_message False env (record_user_activity choom_name now c)"

text \<open>A client that knows the companion Genesis and last heard from its user at time 500,
  and a service that answers one turn.\<close>

definition genesis_client :: choom_client where
  "genesis_client =
     \<lparr>chooms = [(''genesis'',
         \<lparr>ci_id = ''c1'', ci_name = ''Genesis'', ci_description = JNull, ci_voice_id = JNull,
          ci_companion_id = JNull, ci_llm_model = JNull, ci_llm_endpoint = JNull,
          ci_image_settings = JNull\<rparr>)],
      chats = [], chooms_fetched_at = 990, chooms_ttl = 60,
      last_user_activity = [''genesis'' \<mapsto> 500]\<rparr>"

definition one_turn :: http_outcomes where
  "one_turn =
     \<lparr>clock_fresh = 1010, get_chooms = Inl RequestException, clock_fetched = 1010,
      get_chat = True, post_chats = Inr (JStr ''chat-1''), build_settings = None,
      post_chat = Inr [Content ''Hello'', Blank, Done]\<rparr>"

section \<open>scheduler.py: condition evaluation and the health check\<close>

subsection \<open>More of Python's dict and string operations\<close>

fun is_substr :: "string \<Rightarrow> string \<Rightarrow> bool" where
  \<comment> \<open>\<open>sub in s\<close> for two strings\<close>
  "is_substr sub [] = (sub = [])"
| "is_substr sub (c # cs) = (take (length sub) (c # cs) = sub \<or> is_substr sub cs)"

fun py_contains :: "string \<Rightarrow> json \<Rightarrow> py_error + bool" where
  \<comment> \<open>\<open>key in x\<close> for a string \<open>key\<close>: a key of a dict, an element of a list, a substring
      of a string; anything else is not iterable\<close>
  "py_contains key (JObj kvs) = Inr (key \<in> set (map fst kvs))"
| "py_contains key (JArr xs) = Inr (JStr key \<in> set xs)"
| "py_contains key (JStr s) = Inr (is_substr key s)"
| "py_contains key _ = Inl TypeError"

fun py_index :: "json \<Rightarrow> string \<Rightarrow> py_error + json" where
  \<comment> \<open>\<open>x[key]\<close> for a string \<open>key\<close>\<close>
  "py_index (JObj kvs) key = (case map_of kvs key of Some v \<Rightarrow> Inr v | None \<Rightarrow> Inl KeyError)"
| "py_index _ key = Inl TypeError"

fun py_items :: "json \<Rightarrow> py_error + (string \<times> json) list" where
  \<comment> \<open>\<open>d.items()\<close>\<close>
  "py_items (JObj kvs) = Inr kvs"
| "py_items _ = Inl AttributeError"

fun py_join :: "string \<Rightarrow> string list \<Rightarrow> string" where
  \<comment> \<open>\<open>sep.join(parts)\<close>\<close>
  "py_join sep [] = []"
| "py_join sep [x] = x"
| "py_join sep (x # y # ys) = x @ sep @ py_join sep (y # ys)"

definition py_format :: "(json \<Rightarrow> string) \<Rightarrow> json \<Rightarrow> string" where
  \<comment> \<open>a value inside an f-string: a string stands for itself; \<open>str_of\<close> is Python's
      \<open>str\<close> on the other values\<close>
  "py_format str_of v = (case v of JStr s \<Rightarrow> s | _ \<Rightarrow> str_of v)"

fun py_float :: "(string \<Rightarrow> real option) \<Rightarrow> json \<Rightarrow> py_error + real" where
  \<comment> \<open>\<open>float(v)\<close>; \<open>float_of_str\<close> is Python's parser of numeric strings. Numbers are reals
      here; the rounding of floating point is not modelled.\<close>
  "py_float float_of_str (JInt i) = Inr (real_of_int i)"
| "py_float float_of_str (JFloat x) = Inr x"
| "py_float float_of_str (JBool b) = Inr (if b then 1 else 0)"
| "py_float float_of_str (JStr s) =
     (case float_of_str s of Some x \<Rightarrow> Inr x | None \<Rightarrow> Inl ValueError)"
| "py_float float_of_str _ = Inl TypeError"

subsection \<open>Weather condition\<close>

definition weather_field_map :: "(string \<times> string) list" where
  "weather_field_map =
     [(''temperature'', ''temperature''),
      (''windSpeed'', ''windSpeed''),
      (''humidity'', ''humidity''),
      (''temp'', ''temperature''),
      (''wind'', ''windSpeed'')]"

definition weather_lookup :: "json \<Rightarrow> json \<Rightarrow> py_error + json" where
  \<comment> \<open>\<open>actual_field = field_map.get(field, field); current.get(actual_field)\<close>: a list or
      a dict is no dict key; a key that is no string is in neither dict\<close>
  "weather_lookup current field =
     (case field of
        JArr _ \<Rightarrow> Inl TypeError
      | JObj _ \<Rightarrow> Inl TypeError
      | JStr f \<Rightarrow>
          py_get current
            (case map_of weather_field_map f of Some actual_field \<Rightarrow> actual_field | None \<Rightarrow> f)
            JNull
      | _ \<Rightarrow> (case current of JObj _ \<Rightarrow> Inr JNull | _ \<Rightarrow> Inl AttributeError))"

definition compare_op :: "json \<Rightarrow> real \<Rightarrow> real \<Rightarrow> bool" where
  "compare_op op actual_value val =
     (if op = JStr ''<'' then actual_value < val
      else if op = JStr ''>'' then actual_value > val
      else if op = JStr ''<='' then actual_value \<le> val
      else if op = JStr ''>='' then actual_value \<ge> val
      else if op = JStr ''=='' then actual_value = val
      else False)"

definition eval_weather_condition ::
  "(string \<Rightarrow> real option) \<Rightarrow> json \<Rightarrow> py_error + json \<Rightarrow> py_error + bool" where
  \<comment> \<open>\<open>_eval_weather_condition(condition)\<close>; the third argument is what
      \<open>self.choom.get_weather()\<close> returns or raises. The three reads of \<open>condition\<close> come
      before the \<open>try\<close>; every exception after them gives \<open>False\<close>.\<close>
  "eval_weather_condition float_of_str condition get_weather =
     (case py_get condition ''field'' (JStr ''temperature'') of
        Inl e \<Rightarrow> Inl e
      | Inr field \<Rightarrow>
     (case py_get condition ''op'' (JStr ''<'') of
        Inl e \<Rightarrow> Inl e
      | Inr op \<Rightarrow>
     (case py_get condition ''value'' (JInt 0) of
        Inl e \<Rightarrow> Inl e
      | Inr val \<Rightarrow>
     Inr (case get_weather of
        Inl e \<Rightarrow> False
      | Inr weather_data \<Rightarrow>
     (case py_get weather_data ''current'' (JObj []) of
        Inl e \<Rightarrow> False
      | Inr current \<Rightarrow>
     (case weather_lookup current field of
        Inl e \<Rightarrow> False
      | Inr actual_value \<Rightarrow>
          if actual_value = JNull then False
          else
     (case py_float float_of_str actual_value of
        Inl e \<Rightarrow> False
      | Inr actual \<Rightarrow>
     (case py_float float_of_str val of
        Inl e \<Rightarrow> False
      | Inr v \<Rightarrow> compare_op op actual v))))))))"

text \<open>Stand-ins for Python's \<open>str\<close> and for its parser of numeric strings, for runs in
  which every formatted value is a string and every compared value a number.\<close>

definition str_unused :: "json \<Rightarrow> string" where
  "str_unused v = []"

definition float_unused :: "string \<Rightarrow> real option" where
  "float_unused s = None"

text \<open>An automation condition and two answers of the weather endpoint: the documented
  body, and a body holding the same readings under the key \<open>current\<close>.\<close>

definition below_40 :: json where
  "below_40 =
     JObj [(''type'', JStr ''weather''), (''field'', JStr ''temperature''),
           (''op'', JStr ''<''), (''value'', JInt 40)]"

definition readings_38 :: json where
  "readings_38 =
     JObj [(''temperature'', JInt 38), (''description'', JStr ''clear sky''),
           (''windSpeed'', JFloat 5.5), (''humidity'', JInt 40), (''feelsLike'', JInt 36),
           (''location'', JStr ''Oslo'')]"

subsection \<open>System health check\<close>

text \<open>
  What the job reads and writes: the configuration file, the companion client, and the
  calls of \<open>self.signal.send_message\<close> made so far, each with its recipient, its text and
  its attachments (\<open>None\<close> when there are none). What happens outside during one job is in
  a \<open>job_outcomes\<close>: the answers of the companion service, and the path of the audio file
  when \<open>self.tts.synthesize\<close> succeeds.
\<close>

record signal_send =
  ss_recipient :: string
  ss_message :: string
  ss_attachments :: "string list option"

record scheduler =
  sched_fs :: filesystem
  sched_choom :: choom_client
  owner_phone :: string
  signal_sent :: "signal_send list"

record job_outcomes =
  jo_http :: http_outcomes
  jo_synthesize :: "string option"

definition send_message_to_owner ::
  "string \<Rightarrow> bool \<Rightarrow> string option \<Rightarrow> job_outcomes \<Rightarrow> scheduler \<Rightarrow> scheduler" where
  \<comment> \<open>\<open>send_message_to_owner(message, include_audio, choom_name)\<close>. The voice id and the
      text cleaned for speech enter only the request to the TTS service. Nothing in the
      body raises: the lookup of the companion, \<open>synthesize\<close> and \<open>signal.send_message\<close>
      catch their own exceptions.\<close>
  "send_message_to_owner message include_audio choom_name out st =
     (let named = (case choom_name of Some n \<Rightarrow> n \<noteq> [] | None \<Rightarrow> False);
          st1 = (if named
                 then st\<lparr>sched_choom :=
                          snd (get_choom_by_name (the choom_name) (jo_http out) (sched_choom st))\<rparr>
                 else st);
          attachments = (if include_audio \<and> message \<noteq> []
                         then (case jo_synthesize out of
                                 Some audio_path \<Rightarrow> [audio_path]
                               | None \<Rightarrow> [])
                         else []);
          formatted_message = (if named
                               then ''['' @ the choom_name @ '']\<newline>\<newline>'' @ message
                               else message)
      in st1\<lparr>signal_sent := signal_sent st1 @
           [\<lparr>ss_recipient = owner_phone st1, ss_message = formatted_message,
             ss_attachments = (if attachments \<noteq> [] then Some attachments else None)\<rparr>]\<rparr>)"

fun service_issues :: "(json \<Rightarrow> string) \<Rightarrow> (string \<times> json) list \<Rightarrow> string list" where
  \<comment> \<open>the loop over \<open>services.items()\<close> that fills \<open>issues\<close>\<close>
  "service_issues str_of [] = []"
| "service_issues str_of ((service_name, service_info) # rest) =
     (case service_info of
        JObj info \<Rightarrow>
          (let status = (case map_of info ''status'' of Some s \<Rightarrow> s | None \<Rightarrow> JStr ''unknown'')
           in if status \<noteq> JStr ''connected''
              then (''- '' @ service_name @ '': '' @ py_format str_of status)
                     # service_issues str_of rest
              else service_issues str_of rest)
      | _ \<Rightarrow> service_issues str_of rest)"

definition health_check_body ::
  "(json \<Rightarrow> string) \<Rightarrow> json \<Rightarrow> int \<times> int \<Rightarrow> job_outcomes \<Rightarrow> scheduler \<Rightarrow> scheduler" where
  \<comment> \<open>the \<open>try\<close> block of \<open>_system_health_check\<close>; \<open>health\<close> is what
      \<open>self.choom.check_health()\<close> returned. An exception inside the block is caught
      and logged: the job ends with what it had done so far.\<close>
  "health_check_body str_of health now out st =
     (case py_contains ''error'' health of
        Inl e \<Rightarrow> st
      | Inr True \<Rightarrow>
          (case is_quiet_period now (sched_fs st) of
             (Inl e, fs') \<Rightarrow> st\<lparr>sched_fs := fs'\<rparr>
           | (Inr quiet, fs') \<Rightarrow>
               if \<not> quiet
               then (case py_index health ''error'' of
                       Inl e \<Rightarrow> st\<lparr>sched_fs := fs'\<rparr>
                     | Inr err \<Rightarrow>
                         send_message_to_owner
                           (''System Alert: Health check failed - '' @ py_format str_of err)
                           False (Some ''System'') out (st\<lparr>sched_fs := fs'\<rparr>))
               else st\<lparr>sched_fs := fs'\<rparr>)
      | Inr False \<Rightarrow>
          (case py_get health ''services'' (JObj []) of
             Inl e \<Rightarrow> st
           | Inr services \<Rightarrow>
               (case py_items services of
                  Inl e \<Rightarrow> st
                | Inr items \<Rightarrow>
                    (let issues = service_issues str_of items
                     in if issues \<noteq> []
                        then (case is_quiet_period now (sched_fs st) of
                                (Inl e, fs') \<Rightarrow> st\<lparr>sched_fs := fs'\<rparr>
                              | (Inr quiet, fs') \<Rightarrow>
                                  if \<not> quiet
                                  then send_message_to_owner
                                         (''System Alert: Service issues detected\<newline>\<newline>''
                                            @ py_join ''\<newline>'' issues)
                                         False (Some ''System'') out (st\<lparr>sched_fs := fs'\<rparr>)
                                  else st\<lparr>sched_fs := fs'\<rparr>)
                        else st))))"

definition system_health_check ::
  "(json \<Rightarrow> string) \<Rightarrow> json \<Rightarrow> int \<times> int \<Rightarrow> job_outcomes \<Rightarrow> scheduler
     \<Rightarrow> py_error option \<times> scheduler" where
  \<comment> \<open>\<open>_system_health_check\<close>: the check of \<open>is_task_enabled\<close> stands before the \<open>try\<close>,
      so what it raises leaves the job\<close>
  "system_health_check str_of health now out st =
     (case is_task_enabled ''system_health'' (sched_fs st) of
        (Inl e, fs') \<Rightarrow> (Some e, st\<lparr>sched_fs := fs'\<rparr>)
      | (Inr enabled, fs') \<Rightarrow>
          if \<not> truthy enabled then (None, st\<lparr>sched_fs := fs'\<rparr>)
          else (None, health_check_body str_of health now out (st\<lparr>sched_fs := fs'\<rparr>)))"

text \<open>
  The alert in the specification's words: one line \<open>- <name>: <status>\<close> for each service
  whose entry reports a status other than \<open>connected\<close> (an entry without a status
  reports \<open>unknown\<close>).
\<close>

definition service_status :: "(string \<times> json) list \<Rightarrow> json" where
  "service_status info = (case map_of info ''status'' of Some s \<Rightarrow> s | None \<Rightarrow> JStr ''unknown'')"

definition affected_services :: "(string \<times> json) list \<Rightarrow> (string \<times> json) list" where
  "affected_services services =
     concat (map (\<lambda>(name, entry).
        case entry of
          JObj info \<Rightarrow>
            if service_status info \<noteq> JStr ''connected'' then [(name, service_status info)] else []
        | _ \<Rightarrow> []) services)"

definition alert_text :: "(json \<Rightarrow> string) \<Rightarrow> (string \<times> json) list \<Rightarrow> string" where
  "alert_text str_of services =
     ''System Alert: Service issues detected\<newline>\<newline>''
       @ py_join ''\<newline>''
           (map (\<lambda>(name, status). ''- '' @ name @ '': '' @ py_format str_of status)
              (affected_services services))"

text \<open>Two health reports with the service \<open>tts\<close> down, the second also carrying an
  \<open>error\<close> key; a job in which the text-to-speech service is not reached; and two
  schedulers, one on the default configuration and one whose configuration switches the
  health check off.\<close>

definition tts_down :: json where
  "tts_down =
     JObj [(''services'', JObj
        [(''llm'', JObj [(''status'', JStr ''connected'')]),
         (''tts'', JObj [(''status'', JStr ''disconnected'')])])]"

definition tts_down_with_error :: json where
  "tts_down_with_error =
     JObj [(''error'', JStr ''degraded''),
           (''services'', JObj
        [(''llm'', JObj [(''status'', JStr ''connected'')]),
         (''tts'', JObj [(''status'', JStr ''disconnected'')])])]"

definition silent_job :: job_outcomes where
  "silent_job = \<lparr>jo_http = one_turn, jo_synthesize = None\<rparr>"

definition default_scheduler :: scheduler where
  "default_scheduler =
     \<lparr>sched_fs = \<lparr>config_file = Stored (JObj DEFAULT_CONFIG), config_writable = True\<rparr>,
      sched_choom = genesis_client, owner_phone = ''+15550100'', signal_sent = []\<rparr>"

definition health_off_scheduler :: scheduler where
  "health_off_scheduler =
     \<lparr>sched_fs = \<lparr>config_file =
          Stored (JObj [(''tasks'', JObj [(''system_health'', JObj [(''enabled'', JBool False)])])]),
        config_writable = True\<rparr>,
      sched_choom = genesis_client, owner_phone = ''+15550100'', signal_sent = []\<rparr>"

text \<open>A scheduler whose configuration gives a quiet-period start that is no time.\<close>

definition bad_bounds_scheduler :: scheduler where
  "bad_bounds_scheduler =
     \<lparr>sched_fs = \<lparr>config_file =
          Stored (JObj [(''heartbeat'', JObj [(''quiet_start'', JStr ''nine'')])]),
        config_writable = True\<rparr>,
      sched_choom = genesis_client, owner_phone = ''+15550100'', signal_sent = []\<rparr>"

section \<open>signal\_handler.py: the RPC transport\<close>

text \<open>
  The state of a \<open>SignalHandler\<close> that requests and \<open>disconnect\<close> share. A
  \<open>threading.Event\<close> is an object on the heap: the request holds it in a local variable
  and \<open>_pending_requests\<close> holds it under the request id, so the events live in a store of
  their own, \<open>events\<close>, from references to flags, and the dict maps request ids to
  references. The event of a request gets the request id as its reference.
\<close>

record signal_handler =
  connected :: bool
  stop_event :: bool
  sock_open :: bool
  sock_file_open :: bool
  request_id :: nat
  pending_requests :: "(nat \<times> nat) list"
  responses :: "(nat \<times> json) list"
  events :: "nat \<Rightarrow> bool"

definition next_id :: "signal_handler \<Rightarrow> nat \<times> signal_handler" where
  "next_id h = (request_id h + 1, h\<lparr>request_id := request_id h + 1\<rparr>)"

definition send_request_start ::
  "bool \<Rightarrow> signal_handler \<Rightarrow> (py_error + nat) \<times> signal_handler" where
  \<comment> \<open>\<open>_send_request\<close> up to \<open>event.wait(timeout=timeout)\<close>, where the caller blocks; the
      result is the id under which the waiter is registered. The first argument tells
      whether \<open>sendall\<close> succeeds on the open socket.\<close>
  "send_request_start sendall_ok h =
     (if \<not> connected h then (Inl ConnectionError, h)
      else
        (let (req_id, h1) = next_id h;
             h2 = h1\<lparr>events := (events h1)(req_id := False),
                     pending_requests := AList.update req_id req_id (pending_requests h1)\<rparr>
         in if \<not> sock_open h2 then (Inl AttributeError, h2)
            else if \<not> sendall_ok
            then (Inl ConnectionError,
                  h2\<lparr>pending_requests := AList.delete req_id (pending_requests h2),
                      connected := False\<rparr>)
            else (Inr req_id, h2)))"

definition send_request_finish ::
  "nat \<Rightarrow> signal_handler \<Rightarrow> (py_error + json) \<times> signal_handler" where
  \<comment> \<open>\<open>_send_request\<close> from the return of \<open>event.wait\<close> on: the wait gives \<open>True\<close> when
      the flag of the request's event is set, \<open>False\<close> when the timeout passed first\<close>
  "send_request_finish req_id h =
     (if \<not> events h req_id
      then (Inl TimeoutError, h\<lparr>pending_requests := AList.delete req_id (pending_requests h)\<rparr>)
      else
        (let h1 = h\<lparr>pending_requests := AList.delete req_id (pending_requests h)\<rparr>;
             response = (case map_of (responses h1) req_id of Some r \<Rightarrow> r | None \<Rightarrow> JObj []);
             h2 = h1\<lparr>responses := AList.delete req_id (responses h1)\<rparr>
         in (case py_contains ''error'' response of
               Inl e \<Rightarrow> (Inl e, h2)
             | Inr True \<Rightarrow> (Inl RuntimeError, h2)
             | Inr False \<Rightarrow> (Inr response, h2))))"

definition reader_deliver :: "nat \<Rightarrow> json \<Rightarrow> signal_handler \<Rightarrow> signal_handler" where
  \<comment> \<open>the reader thread on a line \<open>data\<close> whose \<open>id\<close> is \<open>req_id\<close>:
      \<open>self._responses[req_id] = data; self._pending_requests[req_id].set()\<close>\<close>
  "reader_deliver req_id data h =
     (case map_of (pending_requests h) req_id of
        Some event \<Rightarrow>
          h\<lparr>responses := AList.update req_id data (responses h),
            events := (events h)(event := True)\<rparr>
      | None \<Rightarrow> h)"

definition disconnect_wake :: "signal_handler \<Rightarrow> signal_handler" where
  \<comment> \<open>\<open>disconnect\<close> up to the end of the loop \<open>for event in
      self._pending_requests.values(): event.set()\<close>\<close>
  "disconnect_wake h =
     (let h1 = h\<lparr>stop_event := True, connected := False, sock_file_open := False,
                 sock_open := False\<rparr>
      in h1\<lparr>events := fold (\<lambda>event ev. ev(event := True)) (map snd (pending_requests h1))
                          (events h1)\<rparr>)"

definition disconnect_clear :: "signal_handler \<Rightarrow> signal_handler" where
  \<comment> \<open>\<open>self._pending_requests.clear(); self._responses.clear()\<close>\<close>
  "disconnect_clear h = h\<lparr>pending_requests := [], responses := []\<rparr>"

definition disconnect :: "signal_handler \<Rightarrow> signal_handler" where
  "disconnect h = disconnect_clear (disconnect_wake h)"

text \<open>A handler right after \<open>connect\<close>.\<close>

definition connected_handler :: signal_handler where
  "connected_handler =
     \<lparr>connected = True, stop_event = False, sock_open = True, sock_file_open = True,
      request_id = 0, pending_requests = [], responses = [], events = (\<lambda>_. False)\<rparr>"

section \<open>signal\_handler.py: the envelope parser\<close>

text \<open>The normalized message \<open>parse_envelope\<close> returns, with the values as they come out
  of the envelope.\<close>

record att_info =
  att_id :: json
  att_content_type :: json
  att_filename :: json
  att_size :: json

record quote_info =
  quote_id :: json
  quote_author :: json
  quote_text :: json

record parsed_message =
  pm_source :: json
  pm_timestamp :: json
  pm_message :: json
  pm_attachments :: "att_info list"
  pm_is_voice_note :: bool
  pm_quote :: "quote_info option"

definition py_or :: "json \<Rightarrow> json \<Rightarrow> json" where
  \<comment> \<open>\<open>a or b\<close>\<close>
  "py_or a b = (if truthy a then a else b)"

fun py_iter :: "json \<Rightarrow> py_error + json list" where
  \<comment> \<open>what \<open>for x in v\<close> runs over: the elements of a list, the keys of a dict, the
      characters of a string\<close>
  "py_iter (JArr xs) = Inr xs"
| "py_iter (JObj kvs) = Inr (map (\<lambda>kv. JStr (fst kv)) kvs)"
| "py_iter (JStr s) = Inr (map (\<lambda>c. JStr [c]) s)"
| "py_iter _ = Inl TypeError"

definition envelope_source :: "json \<Rightarrow> py_error + json" where
  \<comment> \<open>\<open>envelope.get("source") or envelope.get("sourceNumber")\<close>\<close>
  "envelope_source envelope =
     (case py_get envelope ''source'' JNull of
        Inl e \<Rightarrow> Inl e
      | Inr s \<Rightarrow> if truthy s then Inr s else py_get envelope ''sourceNumber'' JNull)"

definition parse_attachment :: "json \<Rightarrow> py_error + att_info \<times> bool" where
  \<comment> \<open>one round of the loop over the attachments: the \<open>att_info\<close>, and whether the
      attachment is a voice note\<close>
  "parse_attachment attachment =
     (case py_get attachment ''id'' JNull of
        Inl e \<Rightarrow> Inl e
      | Inr a_id \<Rightarrow>
     (case py_get attachment ''contentType'' (JStr []) of
        Inl e \<Rightarrow> Inl e
      | Inr content_type \<Rightarrow>
     (case py_get attachment ''filename'' JNull of
        Inl e \<Rightarrow> Inl e
      | Inr filename \<Rightarrow>
     (case py_get attachment ''size'' (JInt 0) of
        Inl e \<Rightarrow> Inl e
      | Inr sz \<Rightarrow>
     (case py_get attachment ''voiceNote'' JNull of
        Inl e \<Rightarrow> Inl e
      | Inr voice_note \<Rightarrow>
     (case (if truthy voice_note then Inr True else py_contains ''audio'' content_type) of
        Inl e \<Rightarrow> Inl e
      | Inr voice \<Rightarrow>
          Inr (\<lparr>att_id = a_id, att_content_type = content_type, att_filename = filename,
                att_size = sz\<rparr>, voice)))))))"

fun parse_attachments :: "json list \<Rightarrow> parsed_message \<Rightarrow> py_error + parsed_message" where
  "parse_attachments [] parsed = Inr parsed"
| "parse_attachments (attachment # rest) parsed =
     (case parse_attachment attachment of
        Inl e \<Rightarrow> Inl e
      | Inr (att, voice) \<Rightarrow>
          parse_attachments rest
            (parsed\<lparr>pm_is_voice_note := (voice \<or> pm_is_voice_note parsed),
                    pm_attachments := pm_attachments parsed @ [att]\<rparr>))"

definition parse_quote :: "json \<Rightarrow> py_error + quote_info option" where
  \<comment> \<open>\<open>if "quote" in data: parsed["quote"] = {...}\<close>\<close>
  "parse_quote data =
     (case py_contains ''quote'' data of
        Inl e \<Rightarrow> Inl e
      | Inr False \<Rightarrow> Inr None
      | Inr True \<Rightarrow>
     (case py_index data ''quote'' of
        Inl e \<Rightarrow> Inl e
      | Inr q \<Rightarrow>
     (case py_get q ''id'' JNull of
        Inl e \<Rightarrow> Inl e
      | Inr q_id \<Rightarrow>
     (case py_get q ''author'' JNull of
        Inl e \<Rightarrow> Inl e
      | Inr q_author \<Rightarrow>
     (case py_get q ''text'' JNull of
        Inl e \<Rightarrow> Inl e
      | Inr q_text \<Rightarrow>
          Inr (Some \<lparr>quote_id = q_id, quote_author = q_author, quote_text = q_text\<rparr>))))))"

definition envelope_data :: "json \<Rightarrow> py_error + json" where
  \<comment> \<open>the choice of \<open>data\<close>: \<open>dataMessage\<close> when the envelope has the key, otherwise
      \<open>syncMessage.sentMessage\<close>, otherwise \<open>None\<close>\<close>
  "envelope_data envelope =
     (case py_contains ''dataMessage'' envelope of
        Inl e \<Rightarrow> Inl e
      | Inr True \<Rightarrow> py_index envelope ''dataMessage''
      | Inr False \<Rightarrow>
     (case py_contains ''syncMessage'' envelope of
        Inl e \<Rightarrow> Inl e
      | Inr False \<Rightarrow> Inr JNull
      | Inr True \<Rightarrow>
     (case py_index envelope ''syncMessage'' of
        Inl e \<Rightarrow> Inl e
      | Inr sync \<Rightarrow>
     (case py_contains ''sentMessage'' sync of
        Inl e \<Rightarrow> Inl e
      | Inr False \<Rightarrow> Inr JNull
      | Inr True \<Rightarrow> py_index sync ''sentMessage''))))"

definition parse_envelope :: "json \<Rightarrow> py_error + parsed_message option" where
  "parse_envelope envelope =
     (case envelope_source envelope of
        Inl e \<Rightarrow> Inl e
      | Inr source \<Rightarrow>
     (case envelope_data envelope of
        Inl e \<Rightarrow> Inl e
      | Inr data \<Rightarrow>
          if \<not> truthy data \<or> \<not> truthy source then Inr None
          else
     (case py_get data ''message'' (JStr []) of
        Inl e \<Rightarrow> Inl e
      | Inr message_text \<Rightarrow>
     (case py_get data ''attachments'' JNull of
        Inl e \<Rightarrow> Inl e
      | Inr atts \<Rightarrow>
          if \<not> truthy message_text \<and> \<not> truthy atts then Inr None
          else
     (case py_get data ''timestamp'' (JInt 0) of
        Inl e \<Rightarrow> Inl e
      | Inr timestamp \<Rightarrow>
     (case py_get data ''attachments'' (JArr []) of
        Inl e \<Rightarrow> Inl e
      | Inr att_list \<Rightarrow>
     (case py_iter att_list of
        Inl e \<Rightarrow> Inl e
      | Inr attachments \<Rightarrow>
     (case parse_attachments attachments
             \<lparr>pm_source = source, pm_timestamp = timestamp, pm_message = message_text,
              pm_attachments = [], pm_is_voice_note = False, pm_quote = None\<rparr> of
        Inl e \<Rightarrow> Inl e
      | Inr parsed \<Rightarrow>
     (case parse_quote data of
        Inl e \<Rightarrow> Inl e
      | Inr q \<Rightarrow> Inr (Some (parsed\<lparr>pm_quote := q\<rparr>)))))))))))"

text \<open>
  The envelope in the specification's words. Its sender is \<open>source\<close>, or \<open>sourceNumber\<close>
  when \<open>source\<close> is missing or empty; its payload is \<open>dataMessage\<close> when that key is
  present and \<open>syncMessage.sentMessage\<close> otherwise; the payload carries a text and a list of
  attachments. An envelope is well-formed when the values the parser walks through are
  objects: \<open>syncMessage\<close> where it is consulted, and a payload that is not empty.
\<close>

definition lookup :: "(string \<times> json) list \<Rightarrow> string \<Rightarrow> json" where
  "lookup kvs key = (case map_of kvs key of Some v \<Rightarrow> v | None \<Rightarrow> JNull)"

definition sender :: "(string \<times> json) list \<Rightarrow> json" where
  "sender env = py_or (lookup env ''source'') (lookup env ''sourceNumber'')"

definition payload :: "(string \<times> json) list \<Rightarrow> json" where
  "payload env =
     (case map_of env ''dataMessage'' of
        Some d \<Rightarrow> d
      | None \<Rightarrow>
          (case map_of env ''syncMessage'' of
             Some (JObj sync) \<Rightarrow> lookup sync ''sentMessage''
           | _ \<Rightarrow> JNull))"

definition payload_text :: "json \<Rightarrow> json" where
  "payload_text d =
     (case d of
        JObj kvs \<Rightarrow> (case map_of kvs ''message'' of Some t \<Rightarrow> t | None \<Rightarrow> JStr [])
      | _ \<Rightarrow> JNull)"

definition payload_attachments :: "json \<Rightarrow> json" where
  "payload_attachments d = (case d of JObj kvs \<Rightarrow> lookup kvs ''attachments'' | _ \<Rightarrow> JNull)"

fun is_dict :: "json \<Rightarrow> bool" where
  "is_dict (JObj kvs) = True"
| "is_dict _ = False"

definition wf_envelope :: "(string \<times> json) list \<Rightarrow> bool" where
  "wf_envelope env =
     ((case map_of env ''dataMessage'' of
         Some d \<Rightarrow> True
       | None \<Rightarrow> (case map_of env ''syncMessage'' of Some sync \<Rightarrow> is_dict sync | None \<Rightarrow> True))
      \<and> (if truthy (payload env) then is_dict (payload env) else True))"

text \<open>
  The payload is well-formed when its \<open>attachments\<close>, if the key is present, is a list, every
  attachment in it is an object that either has a true \<open>voiceNote\<close> flag or has a
  \<open>contentType\<close> that is absent or a string, a list or an object (the values on which the
  test \<open>"audio" in content_type\<close> does not raise), and its \<open>quote\<close>, if the key is present,
  is an object.
\<close>

definition wf_attachment :: "json \<Rightarrow> bool" where
  "wf_attachment a =
     (case a of
        JObj kvs \<Rightarrow>
          truthy (lookup kvs ''voiceNote'')
          \<or> (case map_of kvs ''contentType'' of
                None \<Rightarrow> True
              | Some (JStr s) \<Rightarrow> True
              | Some (JArr xs) \<Rightarrow> True
              | Some (JObj kv) \<Rightarrow> True
              | _ \<Rightarrow> False)
      | _ \<Rightarrow> False)"

definition wf_payload :: "json \<Rightarrow> bool" where
  "wf_payload d =
     (case d of
        JObj kvs \<Rightarrow>
          (case map_of kvs ''attachments'' of
             None \<Rightarrow> True
           | Some (JArr xs) \<Rightarrow> list_all wf_attachment xs
           | _ \<Rightarrow> False)
          \<and> (case map_of kvs ''quote'' of None \<Rightarrow> True | Some q \<Rightarrow> is_dict q)
      | _ \<Rightarrow> False)"

text \<open>Three envelopes: a text message without a sender, the sync copy of a sent reaction
  (no text, no attachments), and a text message from a known sender.\<close>

definition no_sender_envelope :: json where
  "no_sender_envelope =
     JObj [(''timestamp'', JInt 1700000000000),
           (''dataMessage'', JObj [(''timestamp'', JInt 1700000000000), (''message'', JStr ''hello'')])]"

definition sync_reaction_envelope :: json where
  "sync_reaction_envelope =
     JObj [(''source'', JStr ''+15550100''),
           (''syncMessage'', JObj [(''sentMessage'',
              JObj [(''timestamp'', JInt 1700000000000), (''message'', JNull),
                    (''reaction'', JObj [(''emoji'', JStr ''+'')])])])]"

definition hello_envelope :: "(string \<times> json) list" where
  "hello_envelope =
     [(''source'', JStr ''+15550100''),
      (''dataMessage'', JObj [(''timestamp'', JInt 1700000000000), (''message'', JStr ''hello''),
         (''attachments'', JArr [JObj [(''id'', JStr ''a1''), (''contentType'', JStr ''audio/aac'')]])])]"

text \<open>An envelope from a known sender whose attachment has the content type \<open>null\<close> and no
  voice-note flag.\<close>

definition null_content_type_envelope :: "(string \<times> json) list" where
  "null_content_type_envelope =
     [(''source'', JStr ''+15550100''),
      (''dataMessage'', JObj [(''timestamp'', JInt 1700000000000), (''message'', JStr ''hello''),
         (''attachments'', JArr [JObj [(''id'', JStr ''a1''), (''contentType'', JNull)]])])]"

section \<open>signal\_handler.py: the intent resolver\<close>

subsection \<open>Splitting strings\<close>

definition split_once :: "char \<Rightarrow> string \<Rightarrow> string \<times> string" where
  \<comment> \<open>\<open>s.split(sep, 1)\<close> for a one-character \<open>sep\<close> that occurs in \<open>s\<close>: the two parts\<close>
  "split_once sep s = (takeWhile (\<lambda>c. c \<noteq> sep) s, tl (dropWhile (\<lambda>c. c \<noteq> sep) s))"

definition split_ws_once :: "string \<Rightarrow> string list" where
  \<comment> \<open>\<open>s.split(None, 1)\<close>: the first word, and the rest from its first character that is
      no whitespace on, when there is one\<close>
  "split_ws_once s =
     (let s1 = dropWhile is_space s
      in if s1 = [] then []
         else
           (let w = takeWhile (\<lambda>c. \<not> is_space c) s1;
                r = dropWhile is_space (dropWhile (\<lambda>c. \<not> is_space c) s1)
            in if r = [] then [w] else [w, r]))"

function py_words :: "string \<Rightarrow> string list" where
  \<comment> \<open>\<open>s.split()\<close>\<close>
  "py_words s =
     (case dropWhile is_space s of
        [] \<Rightarrow> []
      | c # cs \<Rightarrow>
          takeWhile (\<lambda>c. \<not> is_space c) (c # cs)
            # py_words (dropWhile (\<lambda>c. \<not> is_space c) cs))"
  by pat_completeness auto
termination
proof (relation "measure length")
  show "wf (measure length)" by simp
next
  fix s :: string and c cs
  assume "dropWhile is_space s = c # cs"
  then have "length (c # cs) \<le> length s"
    by (metis length_dropWhile_le)
  moreover have "length (dropWhile (\<lambda>c. \<not> is_space c) cs) \<le> length cs"
    by (rule length_dropWhile_le)
  ultimately show "(dropWhile (\<lambda>c. \<not> is_space c) cs, s) \<in> measure length"
    by simp
qed

subsection \<open>Names\<close>

definition CHOOM_NAME_VARIANTS :: "(string \<times> string) list" where
  "CHOOM_NAME_VARIANTS =
     [(''genesis'', ''Genesis''),
      (''lissa'', ''Lissa''),
      (''aloy'', ''Aloy''),
      (''anya'', ''Anya''),
      (''optic'', ''Optic''),
      (''lisa'', ''Lissa''),
      (''lysa'', ''Lissa''),
      (''lesa'', ''Lissa''),
      (''leesa'', ''Lissa''),
      (''elissa'', ''Lissa''),
      (''alyssa'', ''Lissa''),
      (''alloy'', ''Aloy''),
      (''eloy'', ''Aloy''),
      (''aloi'', ''Aloy''),
      (''ahoy'', ''Aloy''),
      (''ania'', ''Anya''),
      (''oniya'', ''Anya''),
      (''optek'', ''Optic''),
      (''optik'', ''Optic''),
      (''optics'', ''Optic'')]"

definition SKIP_WORDS :: "string list" where
  "SKIP_WORDS =
     [''hey'', ''hi'', ''hello'', ''yo'', ''oh'', ''ok'', ''okay'', ''so'',
      ''well'', ''um'', ''uh'', ''like'', ''please'', ''dear'', ''hiya'']"

definition is_punct :: "char \<Rightarrow> bool" where
  \<comment> \<open>the characters of \<open>",:.!?"\<close>\<close>
  "is_punct c = (c \<in> set '',:.!?'')"

definition match_choom_name :: "string \<Rightarrow> string option" where
  \<comment> \<open>\<open>normalized = name.lower().strip().rstrip(",:.!?");
      return CHOOM_NAME_VARIANTS.get(normalized)\<close>\<close>
  "match_choom_name name =
     map_of CHOOM_NAME_VARIANTS (rstrip_by is_punct (py_strip (py_lower name)))"

definition is_match :: "string option \<Rightarrow> bool" where
  \<comment> \<open>\<open>if matched:\<close> on the result of \<open>_match_choom_name\<close>\<close>
  "is_match matched = (case matched of Some n \<Rightarrow> n \<noteq> [] | None \<Rightarrow> False)"

definition pattern_separator :: "char \<Rightarrow> string \<Rightarrow> (string \<times> string) option" where
  \<comment> \<open>Pattern 1, for one separator: \<open>"Name: message"\<close> or \<open>"Name, message"\<close>\<close>
  "pattern_separator separator message =
     (if separator \<in> set message
      then
        (let (part0, part1) = split_once separator message;
             potential_name = py_strip part0;
             matched = match_choom_name potential_name
         in if is_match matched then Some (the matched, py_strip part1) else None)
      else None)"

definition pattern_at :: "string \<Rightarrow> (string \<times> string) option" where
  \<comment> \<open>Pattern 2: \<open>"@Name message"\<close>\<close>
  "pattern_at message =
     (case message of
        [] \<Rightarrow> None
      | c # rest \<Rightarrow>
          if c = CHR ''@''
          then (case split_ws_once rest of
                  [] \<Rightarrow> None
                | part0 # others \<Rightarrow>
                    (let matched = match_choom_name part0
                     in if is_match matched
                        then Some (the matched, (case others of part1 # _ \<Rightarrow> part1 | [] \<Rightarrow> []))
                        else None))
          else None)"

fun scan_words :: "string list \<Rightarrow> nat \<Rightarrow> string list \<Rightarrow> (string \<times> string) option" where
  \<comment> \<open>Pattern 3, the loop \<open>for i, word in enumerate(words[:5])\<close>: the second and third
      arguments are \<open>i\<close> and the words from \<open>word\<close> on\<close>
  "scan_words words i [] = None"
| "scan_words words i (word # rest) =
     (let clean_word = lstrip_by is_punct (rstrip_by is_punct word);
          matched = match_choom_name clean_word
      in if is_match matched
         then Some (the matched, py_strip (py_join '' '' (drop (i + 1) words)))
         else if py_lower clean_word \<notin> set SKIP_WORDS then None
         else scan_words words (i + 1) rest)"

definition extract_choom_name :: "string \<Rightarrow> string option \<times> string" where
  "extract_choom_name message0 =
     (let message = py_strip message0
      in case pattern_separator CHR '':'' message of
           Some (matched, cleaned_message) \<Rightarrow> (Some matched, cleaned_message)
         | None \<Rightarrow>
        (case pattern_separator CHR '','' message of
           Some (matched, cleaned_message) \<Rightarrow> (Some matched, cleaned_message)
         | None \<Rightarrow>
        (case pattern_at message of
           Some (matched, cleaned_message) \<Rightarrow> (Some matched, cleaned_message)
         | None \<Rightarrow>
        (case scan_words (py_words message) 0 (take 5 (py_words message)) of
           Some (matched, remaining) \<Rightarrow> (Some matched, remaining)
         | None \<Rightarrow> (None, message)))))"

section \<open>Properties\<close>

subsection \<open>List-name aliases\<close>

lemma alias_targets:
  "map_of LIST_ALIASES k = Some t \<Longrightarrow> t = ''groceries'' \<or> t = ''hardware store'' \<or> t = ''to do''"
  by (auto simp: LIST_ALIASES_def split: if_splits)

lemma resolve_groceries: "resolve_list_name ''groceries'' = ''groceries''"
  by (simp add: resolve_list_name_def LIST_ALIASES_def py_lower_def lower_char_def)

lemma resolve_hardware_store: "resolve_list_name ''hardware store'' = ''hardware store''"
  by (simp add: resolve_list_name_def LIST_ALIASES_def py_lower_def lower_char_def)

lemma resolve_to_do: "resolve_list_name ''to do'' = ''to do''"
  by (simp add: resolve_list_name_def LIST_ALIASES_def py_lower_def lower_char_def)

text \<open>
  Claim C10. Resolving a list name twice gives the same result as resolving it once, for
  every input string, and every target of the alias table is a fixed point of the
  resolution.
\<close>

theorem resolve_list_name_idempotent:
  "resolve_list_name (resolve_list_name s) = resolve_list_name s
   \<and> list_all (\<lambda>t. resolve_list_name t = t) (map snd LIST_ALIASES)"
proof
  show "resolve_list_name (resolve_list_name s) = resolve_list_name s"
  proof (cases "map_of LIST_ALIASES (py_lower s)")
    case None
    then have "resolve_list_name s = s"
      by (simp add: resolve_list_name_def)
    then show ?thesis by simp
  next
    case (Some t)
    then have r: "resolve_list_name s = t"
      by (simp add: resolve_list_name_def)
    from Some have "t = ''groceries'' \<or> t = ''hardware store'' \<or> t = ''to do''"
      by (rule alias_targets)
    then show ?thesis
      using r resolve_groceries resolve_hardware_store resolve_to_do by auto
  qed
next
  have "map snd LIST_ALIASES =
      [''groceries'', ''groceries'', ''groceries'', ''hardware store'', ''to do'']"
    by (simp add: LIST_ALIASES_def)
  then show "list_all (\<lambda>t. resolve_list_name t = t) (map snd LIST_ALIASES)"
    using resolve_groceries resolve_hardware_store resolve_to_do by simp
qed

theorem resolve_list_name_idempotent_witness:
  "resolve_list_name ''Shopping'' = ''groceries''
   \<and> resolve_list_name (resolve_list_name ''Shopping'') = resolve_list_name ''Shopping''"
proof -
  have "resolve_list_name ''Shopping'' = ''groceries''"
    by code_simp
  then show ?thesis
    using resolve_list_name_idempotent [of "''Shopping''"] by simp
qed

subsection \<open>Configuration persistence\<close>







declare deep_merge.simps(2) [simp del]














subsection \<open>Quiet period\<close>

lemma parse_hh_mm_examples:
  "parse_hh_mm (JStr ''21:00'') = Inr (21, 0)"
  "parse_hh_mm (JStr '' 6:05 '') = Inr (6, 5)"
  "parse_hh_mm (JStr (CHR 0x1C # ''21:00'')) = Inl ValueError"
  "parse_hh_mm (JStr ''21:00:00'') = Inl ValueError"
  "parse_hh_mm (JStr ''nine'') = Inl ValueError"
  "parse_hh_mm (JInt 21) = Inl AttributeError"
  by code_simp+

text \<open>
  Claim C7. For an overnight quiet range, with the start minute-of-day strictly greater
  than the end minute-of-day, \<open>is_quiet_period\<close> at minute \<open>hour * 60 + minute\<close> of the day
  returns true exactly when that minute is at or after the start or before the end.
\<close>

theorem is_quiet_period_overnight:
  assumes hb: "py_get (fst (load_config fs)) ''heartbeat'' (JObj []) = Inr heartbeat"
    and qs: "py_get heartbeat ''quiet_start'' (JStr ''21:00'') = Inr quiet_start"
    and qe: "py_get heartbeat ''quiet_end'' (JStr ''06:00'') = Inr quiet_end"
    and ps: "parse_hh_mm quiet_start = Inr (start_h, start_m)"
    and pe: "parse_hh_mm quiet_end = Inr (end_h, end_m)"
    and overnight: "start_h * 60 + start_m > end_h * 60 + end_m"
  shows "fst (is_quiet_period (hour, minute) fs) =
           Inr (hour * 60 + minute \<ge> start_h * 60 + start_m
                \<or> hour * 60 + minute < end_h * 60 + end_m)"
proof -
  obtain config fs' where l: "load_config fs = (config, fs')"
    by (cases "load_config fs")
  from hb l have hb': "py_get config ''heartbeat'' (JObj []) = Inr heartbeat"
    by simp
  show ?thesis
    using overnight
    by (simp add: is_quiet_period_def l hb' qs qe ps pe Let_def)
qed

theorem is_quiet_period_overnight_witness:
  "fst (is_quiet_period (23, 0) \<lparr>config_file = Absent, config_writable = True\<rparr>) = Inr True
   \<and> fst (is_quiet_period (5, 59) \<lparr>config_file = Absent, config_writable = True\<rparr>) = Inr True
   \<and> fst (is_quiet_period (9, 0) \<lparr>config_file = Absent, config_writable = True\<rparr>) = Inr False"
proof -
  let ?fs = "\<lparr>config_file = Absent, config_writable = True\<rparr>"
  let ?hb = "JObj [(''quiet_start'', JStr ''21:00''), (''quiet_end'', JStr ''06:00'')]"
  have l: "py_get (fst (load_config ?fs)) ''heartbeat'' (JObj []) = Inr ?hb"
    by (simp add: load_config_def DEFAULT_CONFIG_def)
  have qs: "py_get ?hb ''quiet_start'' (JStr ''21:00'') = Inr (JStr ''21:00'')" by simp
  have qe: "py_get ?hb ''quiet_end'' (JStr ''06:00'') = Inr (JStr ''06:00'')" by simp
  have ps: "parse_hh_mm (JStr ''21:00'') = Inr (21, 0)" by code_simp
  have pe: "parse_hh_mm (JStr ''06:00'') = Inr (6, 0)" by code_simp
  have ov: "(21::int) * 60 + 0 > 6 * 60 + 0" by simp
  note t = is_quiet_period_overnight [OF l qs qe ps pe ov]
  show ?thesis
    using t [of 23 0] t [of 5 59] t [of 9 0] by simp
qed

subsection \<open>User activity\<close>

text \<open>
  Claim C9. The user-activity map is case-insensitive: right after
  \<open>record_user_activity(n)\<close>, \<open>is_user_active(m, w)\<close> asked at the same instant is true for
  every name \<open>m\<close> with the same lower-case form as \<open>n\<close> and every window \<open>w > 0\<close>.
\<close>

theorem user_activity_case_insensitive:
  assumes "py_lower m = py_lower n" and "0 < w"
  shows "is_user_active m w t (record_user_activity n t c)"
  using assms by (simp add: is_user_active_def record_user_activity_def)

theorem user_activity_case_insensitive_witness:
  "py_lower ''GENESIS'' = py_lower ''Genesis'' \<and> (0::real) < 120
   \<and> is_user_active ''GENESIS'' 120 1000 (record_user_activity ''Genesis'' 1000 genesis_client)"
proof -
  have l: "py_lower ''GENESIS'' = py_lower ''Genesis''" by code_simp
  have w: "(0::real) < 120" by simp
  show ?thesis
    using l w user_activity_case_insensitive [OF l w, of 1000 genesis_client] by simp
qed

lemma load_chooms_activity:
  "last_user_activity (snd (load_chooms xs c)) = last_user_activity c"
  by (induction xs c rule: load_chooms.induct) simp_all

lemma fetch_chooms_activity:
  "last_user_activity (snd (fetch_chooms env c)) = last_user_activity c"
proof (cases "get_chooms env")
  case (Inl e)
  then show ?thesis by (simp add: fetch_chooms_def)
next
  case (Inr xs)
  obtain r c' where l: "load_chooms xs (c\<lparr>chooms := []\<rparr>) = (r, c')"
    by (cases "load_chooms xs (c\<lparr>chooms := []\<rparr>)")
  have "last_user_activity c' = last_user_activity c"
    using load_chooms_activity [of xs "c\<lparr>chooms := []\<rparr>"] l by simp
  then show ?thesis
    by (cases r) (simp_all add: fetch_chooms_def Inr l)
qed

lemma ensure_chooms_fresh_activity:
  "last_user_activity (ensure_chooms_fresh env c) = last_user_activity c"
  by (simp add: ensure_chooms_fresh_def fetch_chooms_activity)

lemma get_choom_by_name_activity:
  "last_user_activity (snd (get_choom_by_name n env c)) = last_user_activity c"
  by (simp add: get_choom_by_name_def Let_def ensure_chooms_fresh_activity)

lemma create_chat_activity:
  "last_user_activity (snd (create_chat i env c)) = last_user_activity c"
  by (simp add: create_chat_def split: sum.splits)

lemma get_or_create_chat_activity:
  "last_user_activity (snd (get_or_create_chat i env c)) = last_user_activity c"
  by (simp add: get_or_create_chat_def create_chat_activity split: option.splits)

lemma send_message_activity:
  "last_user_activity (snd (send_message n msg fresh env c)) = last_user_activity c"
proof -
  obtain ch c1 where g: "get_choom_by_name n env c = (ch, c1)"
    by (cases "get_choom_by_name n env c")
  then have a1: "last_user_activity c1 = last_user_activity c"
    using get_choom_by_name_activity [of n env c] by simp
  show ?thesis
  proof (cases ch)
    case None
    then show ?thesis by (simp add: send_message_def g a1)
  next
    case (Some choom)
    obtain r c2 where k: "(if fresh
                 then (case post_chats env of Inl e \<Rightarrow> (Inl e, c1) | Inr new_id \<Rightarrow> (Inr new_id, c1))
                 else get_or_create_chat (ci_id choom) env c1) = (r, c2)"
      by (cases "(if fresh
                 then (case post_chats env of Inl e \<Rightarrow> (Inl e, c1) | Inr new_id \<Rightarrow> (Inr new_id, c1))
                 else get_or_create_chat (ci_id choom) env c1)")
    have a2: "last_user_activity c2 = last_user_activity c1"
    proof (cases fresh)
      case True
      with k show ?thesis by (auto split: sum.splits)
    next
      case False
      with k get_or_create_chat_activity [of "ci_id choom" env c1] show ?thesis by simp
    qed
    show ?thesis
      by (simp add: send_message_def g Some k a1 a2 split: sum.splits option.splits)
  qed
qed

lemma genesis_turn:
  "send_message ''Genesis'' ''hi'' False one_turn genesis_client =
     (Inr \<lparr>content = ''Hello'', tool_calls = [], tool_results = [], images = [],
           chat_id = JStr ''chat-1''\<rparr>,
      genesis_client\<lparr>chats := [(''c1'', JStr ''chat-1'')]\<rparr>)"
proof -
  have l: "py_lower ''Genesis'' = ''genesis''" by code_simp
  show ?thesis
    by (simp add: send_message_def get_choom_by_name_def ensure_chooms_fresh_def
        get_or_create_chat_def create_chat_def genesis_client_def one_turn_def l)
qed

text \<open>
  Claim C3, as stated, fails: \<open>send_message\<close> does not write the user-activity map. The
  call below is made when the clock shows 1000 or later (the call itself reads 1010); it
  returns a response, and the timestamp stored under \<open>genesis\<close> is still 500.
\<close>

theorem send_message_activity_counterexample:
  "fst (send_message ''Genesis'' ''hi'' False one_turn genesis_client) =
     Inr \<lparr>content = ''Hello'', tool_calls = [], tool_results = [], images = [],
          chat_id = JStr ''chat-1''\<rparr>
   \<and> last_user_activity (snd (send_message ''Genesis'' ''hi'' False one_turn genesis_client))
        (py_lower ''Genesis'') = Some 500
   \<and> \<not> (1000 :: real) \<le> 500"
proof -
  have l: "py_lower ''Genesis'' = ''genesis''" by code_simp
  show ?thesis
    by (simp add: genesis_turn l) (simp add: genesis_client_def)
qed

text \<open>
  Claim C3, amended. \<open>send_message\<close> leaves the user-activity map as it is; the bridge's
  message path calls \<open>record_user_activity(name)\<close> right before \<open>send_message(name, ...)\<close>,
  and after that pair of calls the timestamp stored under \<open>name.lower()\<close> is at least any
  wall-clock time \<open>t0\<close> observed before them (the clock does not run backwards: \<open>t0\<close> is at
  most the time \<open>record_user_activity\<close> reads).
\<close>

theorem process_message_records_activity:
  assumes "t0 \<le> now"
  shows "last_user_activity (snd (send_message n msg fresh env c)) = last_user_activity c
    \<and> (\<exists>t. last_user_activity (snd (process_message_send n msg now env c)) (py_lower n) = Some t
           \<and> t0 \<le> t)"
  using assms
  by (simp add: send_message_activity process_message_send_def record_user_activity_def)

theorem process_message_records_activity_witness:
  "(1000 :: real) \<le> 1005
   \<and> last_user_activity (snd (send_message ''Genesis'' ''hi'' False one_turn genesis_client)) =
       last_user_activity genesis_client
   \<and> (\<exists>t. last_user_activity
             (snd (process_message_send ''Genesis'' ''hi'' 1005 one_turn genesis_client))
             (py_lower ''Genesis'') = Some t
          \<and> 1000 \<le> t)"
proof -
  have h: "(1000 :: real) \<le> 1005" by simp
  show ?thesis
    using h process_message_records_activity
      [OF h, of "''Genesis''" "''hi''" False one_turn genesis_client]
    by simp
qed

subsection \<open>System health check\<close>

lemma merge_defaults_twice: "deep_merge DEFAULT_CONFIG DEFAULT_CONFIG = DEFAULT_CONFIG"
  by code_simp

lemma load_config_again: "fst (load_config (snd (load_config fs))) = fst (load_config fs)"
proof (cases "config_file fs")
  case Absent
  then show ?thesis
    by (simp add: load_config_def save_config_def merge_defaults_twice)
next
  case Unreadable
  then show ?thesis by (simp add: load_config_def)
next
  case (Stored c)
  then show ?thesis by (cases c) (simp_all add: load_config_def)
qed

lemma is_quiet_period_config:
  "fst (load_config fs1) = fst (load_config fs2) \<Longrightarrow>
   fst (is_quiet_period now fs1) = fst (is_quiet_period now fs2)"
  by (simp add: is_quiet_period_def split_beta)

lemma is_task_enabled_fs: "snd (is_task_enabled t fs) = snd (load_config fs)"
  by (simp add: is_task_enabled_def split_beta)

lemma is_quiet_period_after_enabled:
  "fst (is_quiet_period now (snd (is_task_enabled t fs))) = fst (is_quiet_period now fs)"
  by (rule is_quiet_period_config) (simp add: is_task_enabled_fs load_config_again)

lemma affected_services_Cons:
  "affected_services ((name, v) # rest) =
     (case v of
        JObj info \<Rightarrow>
          if service_status info \<noteq> JStr ''connected'' then [(name, service_status info)] else []
      | _ \<Rightarrow> []) @ affected_services rest"
  by (simp add: affected_services_def)

lemma service_issues_JObj:
  "service_issues str_of ((name, JObj info) # rest) =
     (if service_status info \<noteq> JStr ''connected''
      then (''- '' @ name @ '': '' @ py_format str_of (service_status info))
             # service_issues str_of rest
      else service_issues str_of rest)"
  by (simp add: service_status_def Let_def)

lemma service_issues_lines:
  "service_issues str_of services =
     map (\<lambda>(name, status). ''- '' @ name @ '': '' @ py_format str_of status)
       (affected_services services)"
proof (induction services)
  case Nil
  then show ?case by (simp add: affected_services_def)
next
  case (Cons entry services)
  obtain name v where e: "entry = (name, v)" by (cases entry)
  show ?case
  proof (cases v)
    case (JObj info)
    then show ?thesis
      unfolding e JObj service_issues_JObj affected_services_Cons
      using Cons.IH by simp
  qed (simp_all add: e affected_services_Cons Cons.IH)
qed

lemma affected_services_nonempty:
  assumes "(name, JObj info) \<in> set services" "service_status info \<noteq> JStr ''connected''"
  shows "affected_services services \<noteq> []"
  using assms by (force simp: affected_services_def)

lemma send_alert:
  "signal_sent (send_message_to_owner message False (Some ''System'') out st) =
     signal_sent st @
       [\<lparr>ss_recipient = owner_phone st,
         ss_message = ''[System]\<newline>\<newline>'' @ message, ss_attachments = None\<rparr>]"
  by (simp add: send_message_to_owner_def Let_def)

lemma health_off_run:
  "signal_sent (snd (system_health_check str_of health now out health_off_scheduler)) = []"
proof -
  have "deep_merge DEFAULT_CONFIG
          [(''tasks'', JObj [(''system_health'', JObj [(''enabled'', JBool False)])])]
        = AList.update ''tasks''
            (JObj (AList.update ''system_health''
               (JObj [(''enabled'', JBool False), (''interval_minutes'', JInt 30)])
               (case hd DEFAULT_CONFIG of (_, JObj tasks) \<Rightarrow> tasks | _ \<Rightarrow> [])))
            DEFAULT_CONFIG"
    by code_simp
  then have "fst (is_task_enabled ''system_health'' (sched_fs health_off_scheduler))
               = Inr (JBool False)"
    by (simp add: is_task_enabled_def load_config_def health_off_scheduler_def
        DEFAULT_CONFIG_def)
  then obtain fs1 where
    "is_task_enabled ''system_health'' (sched_fs health_off_scheduler) = (Inr (JBool False), fs1)"
    by (cases "is_task_enabled ''system_health'' (sched_fs health_off_scheduler)") simp
  moreover have "signal_sent health_off_scheduler = []"
    by (simp add: health_off_scheduler_def)
  ultimately show ?thesis
    by (simp add: system_health_check_def)
qed

lemma default_enabled:
  "is_task_enabled ''system_health'' (sched_fs default_scheduler) =
     (Inr (JBool True), sched_fs default_scheduler)"
proof -
  have m: "deep_merge DEFAULT_CONFIG DEFAULT_CONFIG = DEFAULT_CONFIG" by code_simp
  show ?thesis
    by (simp add: is_task_enabled_def load_config_def default_scheduler_def m)
       (simp add: DEFAULT_CONFIG_def)
qed

lemma default_quiet_9:
  "is_quiet_period (9, 0) (sched_fs default_scheduler) = (Inr False, sched_fs default_scheduler)"
  by code_simp

lemma error_report_run:
  "signal_sent (snd (system_health_check str_unused tts_down_with_error (9, 0) silent_job
      default_scheduler)) =
     [\<lparr>ss_recipient = ''+15550100'',
       ss_message = ''[System]\<newline>\<newline>System Alert: Health check failed - degraded'',
       ss_attachments = None\<rparr>]"
proof -
  have o: "signal_sent default_scheduler = []" "owner_phone default_scheduler = ''+15550100''"
    by (simp_all add: default_scheduler_def)
  have "health_check_body str_unused tts_down_with_error (9, 0) silent_job default_scheduler =
      send_message_to_owner ''System Alert: Health check failed - degraded'' False
        (Some ''System'') silent_job default_scheduler"
    by (simp add: health_check_body_def tts_down_with_error_def default_quiet_9 py_format_def)
  then show ?thesis
    by (simp add: system_health_check_def default_enabled send_alert o)
qed

lemma service_report_run:
  "signal_sent (snd (system_health_check str_unused tts_down (9, 0) silent_job
      default_scheduler)) =
     [\<lparr>ss_recipient = ''+15550100'',
       ss_message =
         ''[System]\<newline>\<newline>System Alert: Service issues detected\<newline>\<newline>- tts: disconnected'',
       ss_attachments = None\<rparr>]"
proof -
  have o: "signal_sent default_scheduler = []" "owner_phone default_scheduler = ''+15550100''"
    by (simp_all add: default_scheduler_def)
  have "health_check_body str_unused tts_down (9, 0) silent_job default_scheduler =
      send_message_to_owner
        ''System Alert: Service issues detected\<newline>\<newline>- tts: disconnected'' False
        (Some ''System'') silent_job default_scheduler"
    by (simp add: health_check_body_def tts_down_def default_quiet_9 py_format_def Let_def)
  then show ?thesis
    by (simp add: system_health_check_def default_enabled send_alert o)
qed

lemma bad_bounds_run:
  "fst (is_quiet_period (9, 0) (sched_fs bad_bounds_scheduler)) = Inl ValueError
   \<and> signal_sent (snd (system_health_check str_unused tts_down (9, 0) silent_job
        bad_bounds_scheduler)) = []"
  by code_simp

text \<open>
  Claim C8, as stated, fails on the text of the alert. On the default configuration at
  09:00, outside the quiet period 21:00 to 06:00, a report in which the service \<open>tts\<close> is
  \<open>disconnected\<close> makes the job send one message, but its text starts with the attribution
  \<open>[System]\<close> and a blank line, so it is not the text the claim gives. When the report also
  carries an \<open>error\<close> key, the job takes its other branch and the one message sent is the
  alert \<open>Health check failed\<close>, without a line for the service.
\<close>

theorem system_health_check_counterexample:
  "fst (is_quiet_period (9, 0) (sched_fs default_scheduler)) = Inr False
   \<and> signal_sent (snd (system_health_check str_unused tts_down (9, 0) silent_job
        default_scheduler)) =
       [\<lparr>ss_recipient = ''+15550100'',
         ss_message =
           ''[System]\<newline>\<newline>System Alert: Service issues detected\<newline>\<newline>- tts: disconnected'',
         ss_attachments = None\<rparr>]
   \<and> ''[System]\<newline>\<newline>System Alert: Service issues detected\<newline>\<newline>- tts: disconnected''
       \<noteq> ''System Alert: Service issues detected\<newline>\<newline>- tts: disconnected''
   \<and> signal_sent (snd (system_health_check str_unused tts_down_with_error (9, 0) silent_job
        default_scheduler)) =
       [\<lparr>ss_recipient = ''+15550100'',
         ss_message = ''[System]\<newline>\<newline>System Alert: Health check failed - degraded'',
         ss_attachments = None\<rparr>]"
  by (simp add: default_quiet_9 service_report_run error_report_run)

text \<open>
  Claim C8, amended. For every run of the health-check job that polls the companion
  service (the \<open>system_health\<close> task is enabled), in which the health report carries no
  \<open>error\<close> key and an entry of its \<open>services\<close> object reports a status other than
  \<open>connected\<close>, and in which \<open>is_quiet_period\<close> returns a value: inside the quiet period no
  message is sent; outside it exactly one message is passed to the Signal handler, for
  the owner and without attachments, whose text is \<open>[System]\<close>, a blank line,
  \<open>System Alert: Service issues detected\<close>, a blank line, and one \<open>- <name>: <status>\<close>
  line per affected service.
\<close>

theorem system_health_check_alert:
  assumes enabled: "fst (is_task_enabled ''system_health'' (sched_fs st)) = Inr en"
    and on: "truthy en"
    and no_error: "py_contains ''error'' health = Inr False"
    and services: "py_get health ''services'' (JObj []) = Inr (JObj services)"
    and entry: "(name, JObj info) \<in> set services"
    and down: "service_status info \<noteq> JStr ''connected''"
    and quiet: "fst (is_quiet_period now (sched_fs st)) = Inr quiet"
  shows "signal_sent (snd (system_health_check str_of health now out st)) =
     (if quiet then signal_sent st
      else signal_sent st @
        [\<lparr>ss_recipient = owner_phone st,
          ss_message = ''[System]\<newline>\<newline>'' @ alert_text str_of services,
          ss_attachments = None\<rparr>])"
proof -
  obtain fs1 where e: "is_task_enabled ''system_health'' (sched_fs st) = (Inr en, fs1)"
    using enabled by (cases "is_task_enabled ''system_health'' (sched_fs st)") simp
  have "fst (is_quiet_period now fs1) = Inr quiet"
    using is_quiet_period_after_enabled [of now "''system_health''" "sched_fs st"] e quiet
    by simp
  then obtain fs2 where q: "is_quiet_period now fs1 = (Inr quiet, fs2)"
    by (cases "is_quiet_period now fs1") simp
  have issues: "service_issues str_of services \<noteq> []"
    using affected_services_nonempty [OF entry down] by (simp add: service_issues_lines)
  have body: "signal_sent (health_check_body str_of health now out (st\<lparr>sched_fs := fs1\<rparr>)) =
     (if quiet then signal_sent st
      else signal_sent st @
        [\<lparr>ss_recipient = owner_phone st,
          ss_message = ''[System]\<newline>\<newline>'' @ alert_text str_of services,
          ss_attachments = None\<rparr>])"
    using issues
    by (simp add: health_check_body_def no_error services q send_alert
        alert_text_def service_issues_lines Let_def)
  show ?thesis
    using body on by (simp add: system_health_check_def e)
qed

theorem system_health_check_alert_witness:
  "signal_sent (snd (system_health_check str_unused tts_down (9, 0) silent_job
      default_scheduler)) =
     [\<lparr>ss_recipient = ''+15550100'',
       ss_message =
         ''[System]\<newline>\<newline>System Alert: Service issues detected\<newline>\<newline>- tts: disconnected'',
       ss_attachments = None\<rparr>]
   \<and> signal_sent (snd (system_health_check str_unused tts_down (23, 0) silent_job
        default_scheduler)) = []"
proof -
  let ?services = "[(''llm'', JObj [(''status'', JStr ''connected'')]),
         (''tts'', JObj [(''status'', JStr ''disconnected'')])]"
  have e: "fst (is_task_enabled ''system_health'' (sched_fs default_scheduler)) = Inr (JBool True)"
    by (simp add: default_enabled)
  have t: "truthy (JBool True)" by simp
  have n: "py_contains ''error'' tts_down = Inr False" by (simp add: tts_down_def)
  have s: "py_get tts_down ''services'' (JObj []) = Inr (JObj ?services)"
    by (simp add: tts_down_def)
  have i: "(''tts'', JObj [(''status'', JStr ''disconnected'')]) \<in> set ?services" by simp
  have d: "service_status [(''status'', JStr ''disconnected'')] \<noteq> JStr ''connected''"
    by (simp add: service_status_def)
  have q9: "fst (is_quiet_period (9, 0) (sched_fs default_scheduler)) = Inr False"
    by (simp add: default_quiet_9)
  have q23: "fst (is_quiet_period (23, 0) (sched_fs default_scheduler)) = Inr True" by code_simp
  have a: "alert_text str_unused ?services
             = ''System Alert: Service issues detected\<newline>\<newline>- tts: disconnected''"
    by (simp add: alert_text_def affected_services_def service_status_def py_format_def)
  have o: "signal_sent default_scheduler = []" "owner_phone default_scheduler = ''+15550100''"
    by (simp_all add: default_scheduler_def)
  show ?thesis
    using system_health_check_alert [OF e t n s i d q9, of str_unused silent_job]
      system_health_check_alert [OF e t n s i d q23, of str_unused silent_job] a o
    by simp
qed

subsection \<open>Weather condition\<close>

lemma weather_lookup_empty:
  "weather_lookup (JObj []) field = Inr JNull \<or> weather_lookup (JObj []) field = Inl TypeError"
  by (cases field) (simp_all add: weather_lookup_def)

lemma weather_condition_without_current:
  assumes "map_of body ''current'' = None"
  shows "eval_weather_condition float_of_str (JObj condition) (Inr (JObj body)) = Inr False"
  using assms weather_lookup_empty [of "case map_of condition ''field'' of
      Some v \<Rightarrow> v | None \<Rightarrow> JStr ''temperature''"]
  by (auto simp: eval_weather_condition_def)

text \<open>
  Claim C1. The condition \<open>temperature < 40\<close> is evaluated against the documented answer
  of the weather endpoint, \<open>{weather: {temperature: 38, ...}}\<close>. The relation holds, and
  the evaluation gives false: the code reads the readings under the key \<open>current\<close>, which
  the documented body does not have. The same readings under \<open>current\<close> give true.
\<close>

theorem weather_condition_documented_body:
  "eval_weather_condition float_unused below_40 (Inr (JObj [(''weather'', readings_38)]))
     = Inr False
   \<and> eval_weather_condition float_unused below_40 (Inr (JObj [(''current'', readings_38)]))
     = Inr True"
  by (simp add: eval_weather_condition_def below_40_def readings_38_def weather_lookup_def
      weather_field_map_def compare_op_def)

subsection \<open>RPC transport\<close>

lemma blocked_request:
  "send_request_start True connected_handler =
     (Inr 1,
      \<lparr>connected = True, stop_event = False, sock_open = True, sock_file_open = True,
       request_id = 1, pending_requests = [(1, 1)], responses = [], events = (\<lambda>_. False)\<rparr>)"
  by (simp add: send_request_start_def next_id_def connected_handler_def fun_upd_idem)

lemma answered_request:
  "fst (send_request_finish 1
     (reader_deliver 1 (JObj [(''jsonrpc'', JStr ''2.0''), (''id'', JInt 1), (''result'', JObj [])])
        (snd (send_request_start True connected_handler))))
   = Inr (JObj [(''jsonrpc'', JStr ''2.0''), (''id'', JInt 1), (''result'', JObj [])])"
  by (simp add: blocked_request send_request_finish_def reader_deliver_def Let_def)

lemma timed_out_request:
  "fst (send_request_finish 1 (snd (send_request_start True connected_handler)))
   = Inl TimeoutError"
  by (simp add: blocked_request send_request_finish_def)

text \<open>
  Claim C2. One request is registered and blocked in its wait when \<open>disconnect\<close> runs.
  \<open>disconnect\<close> sets the stop flag, closes the socket and sets the event of the waiter;
  the request then leaves its wait and returns the empty dict, an ordinary result, and
  not an error. This is so whether the request resumes before or after \<open>disconnect\<close>
  clears the two dicts.
\<close>

theorem disconnect_releases_with_empty_result:
  "stop_event (disconnect (snd (send_request_start True connected_handler)))
   \<and> \<not> sock_open (disconnect (snd (send_request_start True connected_handler)))
   \<and> \<not> connected (disconnect (snd (send_request_start True connected_handler)))
   \<and> fst (send_request_finish 1 (disconnect (snd (send_request_start True connected_handler))))
       = Inr (JObj [])
   \<and> fst (send_request_finish 1
            (disconnect_wake (snd (send_request_start True connected_handler))))
       = Inr (JObj [])"
  by (simp add: blocked_request disconnect_def disconnect_wake_def disconnect_clear_def
      send_request_finish_def Let_def)

subsection \<open>Envelope parser\<close>

lemma envelope_source_sender: "envelope_source (JObj env) = Inr (sender env)"
  by (simp add: envelope_source_def sender_def py_or_def lookup_def split: option.splits)

lemma map_of_key_iff: "(key \<in> fst ` set kvs) = (map_of kvs key \<noteq> None)"
  by (simp add: map_of_eq_None_iff)

lemma envelope_data_payload:
  assumes "wf_envelope env"
  shows "envelope_data (JObj env) = Inr (payload env)"
proof (cases "map_of env ''dataMessage''")
  case (Some d)
  then show ?thesis
    by (simp add: envelope_data_def payload_def map_of_key_iff)
next
  case None
  note dm = None
  show ?thesis
  proof (cases "map_of env ''syncMessage''")
    case None
    with dm show ?thesis
      by (simp add: envelope_data_def payload_def map_of_key_iff)
  next
    case (Some sync)
    with dm assms obtain kvs where s: "sync = JObj kvs"
      by (cases sync) (simp_all add: wf_envelope_def)
    show ?thesis
      using dm Some s
      by (simp add: envelope_data_def payload_def lookup_def map_of_key_iff
          split: option.splits)
  qed
qed

lemma parse_attachment_wf:
  assumes "wf_attachment a"
  shows "\<exists>r. parse_attachment a = Inr r"
proof -
  from assms obtain kvs where a: "a = JObj kvs"
    by (cases a) (simp_all add: wf_attachment_def)
  show ?thesis
  proof (cases "truthy (lookup kvs ''voiceNote'')")
    case True
    then show ?thesis
      by (auto simp: a parse_attachment_def lookup_def)
  next
    case False
    with assms a have
      "case map_of kvs ''contentType'' of
         None \<Rightarrow> True | Some (JStr s) \<Rightarrow> True | Some (JArr xs) \<Rightarrow> True
       | Some (JObj kv) \<Rightarrow> True | _ \<Rightarrow> False"
      by (simp add: wf_attachment_def)
    then have "\<exists>b. py_contains ''audio''
        (case map_of kvs ''contentType'' of Some v \<Rightarrow> v | None \<Rightarrow> JStr []) = Inr b"
      by (auto split: option.splits json.splits)
    then show ?thesis
      using False by (auto simp: a parse_attachment_def lookup_def)
  qed
qed

lemma parse_attachments_wf:
  "list_all wf_attachment xs \<Longrightarrow>
   \<exists>p. parse_attachments xs parsed = Inr p
        \<and> pm_source p = pm_source parsed \<and> pm_message p = pm_message parsed"
proof (induction xs arbitrary: parsed)
  case Nil
  then show ?case by simp
next
  case (Cons a xs)
  from Cons.prems have "wf_attachment a" and rest: "list_all wf_attachment xs"
    by simp_all
  then obtain att voice where a: "parse_attachment a = Inr (att, voice)"
    using parse_attachment_wf by fastforce
  show ?case
    using Cons.IH [OF rest,
        of "parsed\<lparr>pm_is_voice_note := (voice \<or> pm_is_voice_note parsed),
                    pm_attachments := pm_attachments parsed @ [att]\<rparr>"]
    by (simp add: a)
qed

lemma parse_quote_wf:
  assumes "case map_of d ''quote'' of None \<Rightarrow> True | Some q \<Rightarrow> is_dict q"
  shows "\<exists>q. parse_quote (JObj d) = Inr q"
proof (cases "map_of d ''quote''")
  case None
  then show ?thesis
    by (simp add: parse_quote_def map_of_key_iff)
next
  case (Some q)
  with assms obtain kvs where "q = JObj kvs"
    by (cases q) simp_all
  with Some show ?thesis
    by (simp add: parse_quote_def map_of_key_iff)
qed

lemma payload_text_JObj:
  "payload_text (JObj d) = (case map_of d ''message'' of Some v \<Rightarrow> v | None \<Rightarrow> JStr [])"
  by (simp add: payload_text_def)

lemma payload_attachments_JObj:
  "payload_attachments (JObj d) = (case map_of d ''attachments'' of Some v \<Rightarrow> v | None \<Rightarrow> JNull)"
  by (simp add: payload_attachments_def lookup_def)

lemma parse_envelope_payload:
  assumes wf: "wf_envelope env" and s: "truthy (sender env)" and d: "payload env = JObj d"
    and t: "truthy (JObj d)"
    and body: "body = payload_text (JObj d)"
    and atts: "atts = payload_attachments (JObj d)"
  shows "parse_envelope (JObj env) =
     (if \<not> truthy body \<and> \<not> truthy atts
      then Inr None
      else
     (case py_iter (case map_of d ''attachments'' of Some v \<Rightarrow> v | None \<Rightarrow> JArr []) of
        Inl e \<Rightarrow> Inl e
      | Inr attachments \<Rightarrow>
     (case parse_attachments attachments
             \<lparr>pm_source = sender env,
              pm_timestamp = (case map_of d ''timestamp'' of Some v \<Rightarrow> v | None \<Rightarrow> JInt 0),
              pm_message = body,
              pm_attachments = [], pm_is_voice_note = False, pm_quote = None\<rparr> of
        Inl e \<Rightarrow> Inl e
      | Inr parsed \<Rightarrow>
     (case parse_quote (JObj d) of
        Inl e \<Rightarrow> Inl e
      | Inr q \<Rightarrow> Inr (Some (parsed\<lparr>pm_quote := q\<rparr>))))))"
  unfolding body atts payload_text_JObj payload_attachments_JObj
  using s t
  by (simp add: parse_envelope_def envelope_source_sender envelope_data_payload [OF wf] d)

lemma parse_envelope_no_payload:
  assumes wf: "wf_envelope env" and "\<not> truthy (sender env) \<or> \<not> truthy (payload env)"
  shows "parse_envelope (JObj env) = Inr None"
  using assms(2)
  by (auto simp: parse_envelope_def envelope_source_sender envelope_data_payload [OF wf])

text \<open>
  Claim C4, as stated, fails in both directions of its reading. A data message with the
  text \<open>hello\<close> but no sender is dropped, although it carries text; the sync copy of a sent
  reaction is dropped, although it carries a sync-sent message.
\<close>

theorem parse_envelope_counterexample:
  "parse_envelope no_sender_envelope = Inr None
   \<and> parse_envelope sync_reaction_envelope = Inr None"
  by (simp add: parse_envelope_def no_sender_envelope_def sync_reaction_envelope_def
      envelope_source_def envelope_data_def)

lemma parse_envelope_null_content_type:
  "wf_envelope null_content_type_envelope
   \<and> \<not> wf_payload (payload null_content_type_envelope)
   \<and> parse_envelope (JObj null_content_type_envelope) = Inl TypeError"
  by (simp add: null_content_type_envelope_def wf_envelope_def wf_payload_def wf_attachment_def
      payload_def lookup_def parse_envelope_def envelope_source_def envelope_data_def
      parse_attachment_def)

text \<open>
  Claim C4, amended. For every well-formed envelope (\<open>syncMessage\<close>, when there is no
  \<open>dataMessage\<close> key, is an object, and the payload, when it is not empty, is an object),
  \<open>parse_envelope\<close> returns no intake exactly when the envelope has no sender (neither a
  non-empty \<open>source\<close> nor a non-empty \<open>sourceNumber\<close>), or its payload (\<open>dataMessage\<close> when
  the key is present, \<open>syncMessage.sentMessage\<close> otherwise) is missing or empty, or the
  payload has neither a non-empty text nor a non-empty \<open>attachments\<close> value. In
  particular, such an envelope with a sender and a payload that has a non-empty text or
  non-empty attachments yields an intake record, with that sender and that text, provided
  the payload is well-formed: \<open>attachments\<close>, if present, is a list of objects each of which
  has a true \<open>voiceNote\<close> flag or a \<open>contentType\<close> that is absent or a string, a list or an
  object, and \<open>quote\<close>, if present, is an object. (With a \<open>contentType\<close> of \<open>null\<close> and no
  voice-note flag the parser raises TypeError.)
\<close>

theorem parse_envelope_none_iff:
  assumes wf: "wf_envelope env"
  shows "(parse_envelope (JObj env) = Inr None \<longleftrightarrow>
            \<not> truthy (sender env) \<or> \<not> truthy (payload env)
            \<or> (\<not> truthy (payload_text (payload env))
                \<and> \<not> truthy (payload_attachments (payload env))))
    \<and> (truthy (sender env) \<and> truthy (payload env) \<and> wf_payload (payload env)
        \<and> (truthy (payload_text (payload env)) \<or> truthy (payload_attachments (payload env)))
        \<longrightarrow> (\<exists>r. parse_envelope (JObj env) = Inr (Some r)
                 \<and> pm_source r = sender env
                 \<and> pm_message r = payload_text (payload env)))"
proof (cases "truthy (sender env) \<and> truthy (payload env)")
  case False
  then show ?thesis
    using parse_envelope_no_payload [OF wf] by auto
next
  case True
  then have s: "truthy (sender env)" and t: "truthy (payload env)" by simp_all
  from wf t obtain d where d: "payload env = JObj d"
    by (cases "payload env") (simp_all add: wf_envelope_def)
  from t d have td: "truthy (JObj d)" by simp
  note unfold = parse_envelope_payload [OF wf s d td refl refl]
  show ?thesis
  proof (cases "\<not> truthy (payload_text (JObj d)) \<and> \<not> truthy (payload_attachments (JObj d))")
    case True
    then show ?thesis
      using s t d unfold by auto
  next
    case False
    have not_none: "parse_envelope (JObj env) \<noteq> Inr None"
      using False unfold by (auto split: sum.splits)
    have some: "\<exists>r. parse_envelope (JObj env) = Inr (Some r)
                 \<and> pm_source r = sender env \<and> pm_message r = payload_text (JObj d)"
      if w: "wf_payload (JObj d)"
    proof -
      from w have al: "case map_of d ''attachments'' of
            None \<Rightarrow> True | Some (JArr xs) \<Rightarrow> list_all wf_attachment xs | _ \<Rightarrow> False"
        and qu: "case map_of d ''quote'' of None \<Rightarrow> True | Some q \<Rightarrow> is_dict q"
        by (simp_all add: wf_payload_def)
      from al obtain xs where
        it: "py_iter (case map_of d ''attachments'' of Some v \<Rightarrow> v | None \<Rightarrow> JArr []) = Inr xs"
        and xs: "list_all wf_attachment xs"
        by (auto split: option.splits json.splits)
      from parse_attachments_wf [OF xs] obtain p where
        p: "parse_attachments xs
             \<lparr>pm_source = sender env,
              pm_timestamp = (case map_of d ''timestamp'' of Some v \<Rightarrow> v | None \<Rightarrow> JInt 0),
              pm_message = payload_text (JObj d),
              pm_attachments = [], pm_is_voice_note = False, pm_quote = None\<rparr> = Inr p"
        and ps: "pm_source p = sender env" and pmsg: "pm_message p = payload_text (JObj d)"
        by fastforce
      from parse_quote_wf [OF qu] obtain q where q: "parse_quote (JObj d) = Inr q"
        by blast
      have "parse_envelope (JObj env) = Inr (Some (p\<lparr>pm_quote := q\<rparr>))"
        using False unfold by (simp add: it p q)
      then show ?thesis
        using ps pmsg by simp
    qed
    show ?thesis
      using s t d False not_none some by auto
  qed
qed


theorem parse_envelope_none_iff_witness:
  "wf_envelope hello_envelope
   \<and> (\<exists>r. parse_envelope (JObj hello_envelope) = Inr (Some r)
          \<and> pm_source r = JStr ''+15550100'' \<and> pm_message r = JStr ''hello'')
   \<and> parse_envelope (JObj hello_envelope) \<noteq> Inr None"
proof -
  have p: "payload hello_envelope =
      JObj [(''timestamp'', JInt 1700000000000), (''message'', JStr ''hello''),
         (''attachments'', JArr [JObj [(''id'', JStr ''a1''), (''contentType'', JStr ''audio/aac'')]])]"
    by (simp add: payload_def hello_envelope_def)
  have wf: "wf_envelope hello_envelope"
    by (simp add: wf_envelope_def p) (simp add: hello_envelope_def)
  have s: "sender hello_envelope = JStr ''+15550100''"
    by (simp add: sender_def hello_envelope_def lookup_def py_or_def)
  have w: "wf_payload (payload hello_envelope)"
    by (simp add: p wf_payload_def wf_attachment_def lookup_def)
  have m: "payload_text (payload hello_envelope) = JStr ''hello''"
    by (simp add: p payload_text_def)
  show ?thesis
    using parse_envelope_none_iff [OF wf] wf s w m p by simp
qed

subsection \<open>Intent resolver\<close>

lemma last_dropWhile_nonempty:
  "dropWhile p xs \<noteq> [] \<Longrightarrow> last (dropWhile p xs) = last xs"
proof -
  assume n: "dropWhile p xs \<noteq> []"
  have "last xs = last (takeWhile p xs @ dropWhile p xs)" by simp
  also have "\<dots> = last (dropWhile p xs)" using n by (simp only: last_append if_False)
  finally show ?thesis by simp
qed

lemma rstrip_by_last:
  "rstrip_by p s \<noteq> [] \<Longrightarrow> \<not> p (last (rstrip_by p s))"
proof -
  assume n: "rstrip_by p s \<noteq> []"
  then have d: "dropWhile p (rev s) \<noteq> []" by (simp add: rstrip_by_def)
  then have "\<not> p (hd (dropWhile p (rev s)))" by (rule hd_dropWhile)
  moreover have "last (rstrip_by p s) = hd (dropWhile p (rev s))"
    using d by (simp add: rstrip_by_def last_rev)
  ultimately show ?thesis by simp
qed

lemma rstrip_by_fixed:
  assumes "s = [] \<or> \<not> p (last s)"
  shows "rstrip_by p s = s"
proof (cases "s = []")
  case True
  then show ?thesis by (simp add: rstrip_by_def)
next
  case False
  with assms have "\<not> p (hd (rev s))" by (simp add: hd_rev)
  then have "dropWhile p (rev s) = rev s"
    using False by (cases "rev s") simp_all
  then show ?thesis by (simp add: rstrip_by_def)
qed

lemma py_strip_ends:
  assumes "py_strip s \<noteq> []"
  shows "\<not> is_space (hd (py_strip s)) \<and> \<not> is_space (last (py_strip s))"
proof -
  let ?r = "rstrip_by is_space s"
  from assms have d: "dropWhile is_space ?r \<noteq> []"
    by (simp add: py_strip_def lstrip_by_def)
  then have r: "?r \<noteq> []" by auto
  have "\<not> is_space (hd (dropWhile is_space ?r))"
    using d by (rule hd_dropWhile)
  moreover have "last (dropWhile is_space ?r) = last ?r"
    using d by (rule last_dropWhile_nonempty)
  moreover have "\<not> is_space (last ?r)"
    using r by (rule rstrip_by_last)
  ultimately show ?thesis
    by (simp add: py_strip_def lstrip_by_def)
qed

lemma py_strip_fixed:
  assumes "s = [] \<or> (\<not> is_space (hd s) \<and> \<not> is_space (last s))"
  shows "py_strip s = s"
proof -
  from assms have "rstrip_by is_space s = s"
    by (auto intro: rstrip_by_fixed)
  moreover from assms have "dropWhile is_space s = s"
    by (cases s) auto
  ultimately show ?thesis
    by (simp add: py_strip_def lstrip_by_def)
qed

lemma py_strip_idem: "py_strip (py_strip s) = py_strip s"
  using py_strip_ends [of s] by (intro py_strip_fixed) blast

lemma pattern_separator_tail:
  assumes "pattern_separator sep message = Some (n, tail)"
  shows "py_strip tail = tail"
proof -
  obtain part0 part1 where sp: "split_once sep message = (part0, part1)"
    by (cases "split_once sep message")
  from assms have "tail = py_strip part1"
    by (simp add: pattern_separator_def sp Let_def split: if_splits)
  then show ?thesis by (simp add: py_strip_idem)
qed

lemma dropWhile_nonempty: "dropWhile p xs \<noteq> [] \<Longrightarrow> xs \<noteq> []"
  by (cases xs) simp_all

lemma two_parts:
  "(if a = [] then [] else if c = [] then [b] else [b, c]) = w # r # t \<Longrightarrow> r = c \<and> c \<noteq> []"
  by (simp split: if_splits)

lemma split_ws_once_rest:
  assumes "split_ws_once s = w # r # others" and "s \<noteq> []" and "\<not> is_space (last s)"
  shows "py_strip r = r"
proof -
  let ?s1 = "dropWhile is_space s"
  let ?s2 = "dropWhile (\<lambda>c. \<not> is_space c) ?s1"
  let ?s3 = "dropWhile is_space ?s2"
  have "split_ws_once s =
      (if ?s1 = [] then []
       else if ?s3 = [] then [takeWhile (\<lambda>c. \<not> is_space c) ?s1]
       else [takeWhile (\<lambda>c. \<not> is_space c) ?s1, ?s3])"
    unfolding split_ws_once_def Let_def by (rule refl)
  with assms(1) have "r = ?s3 \<and> ?s3 \<noteq> []"
    by (intro two_parts) (rule trans [OF sym])
  then have r: "r = ?s3" and n3: "?s3 \<noteq> []" by blast+
  from n3 have n2: "?s2 \<noteq> []" by (rule dropWhile_nonempty)
  then have n1: "?s1 \<noteq> []" by (rule dropWhile_nonempty)
  have "last ?s3 = last ?s2" using n3 by (rule last_dropWhile_nonempty)
  also have "\<dots> = last ?s1" using n2 by (rule last_dropWhile_nonempty)
  also have "\<dots> = last s" using n1 by (rule last_dropWhile_nonempty)
  finally have l: "last ?s3 = last s" .
  have h: "\<not> is_space (hd ?s3)" using n3 by (rule hd_dropWhile)
  have "?s3 = [] \<or> (\<not> is_space (hd ?s3) \<and> \<not> is_space (last ?s3))"
    using h l assms(3) by (simp only: simp_thms)
  then show ?thesis
    unfolding r by (rule py_strip_fixed)
qed

lemma split_ws_once_Nil: "split_ws_once [] = []"
  by (simp add: split_ws_once_def)

lemma pattern_at_tail:
  assumes "pattern_at message = Some (n, tail)" and "py_strip message = message"
  shows "py_strip tail = tail"
proof -
  from assms(1) obtain rest part0 others where
    m: "message = CHR ''@'' # rest" and sp: "split_ws_once rest = part0 # others"
    and tail: "tail = (case others of part1 # _ \<Rightarrow> part1 | [] \<Rightarrow> [])"
    by (auto simp: pattern_at_def Let_def split: list.splits if_splits)
  show ?thesis
  proof (cases others)
    case Nil
    with tail show ?thesis by (simp add: py_strip_fixed)
  next
    case (Cons part1 others)
    have rest: "rest \<noteq> []"
      using sp split_ws_once_Nil by (cases rest) simp_all
    have "py_strip message \<noteq> []" using m assms(2) by simp
    then have "\<not> is_space (last (py_strip message))"
      using py_strip_ends by blast
    then have "\<not> is_space (last rest)"
      using m rest assms(2) by simp
    then have "py_strip part1 = part1"
      using split_ws_once_rest [of rest part0 part1 others] sp Cons rest by simp
    then show ?thesis using tail Cons by simp
  qed
qed

lemma scan_words_tail:
  "scan_words words i ws = Some (n, tail) \<Longrightarrow> py_strip tail = tail"
proof (induction words i ws rule: scan_words.induct)
  case (1 words i)
  then show ?case by simp
next
  case (2 words i word rest)
  then show ?case
    by (auto simp: Let_def py_strip_idem split: if_splits)
qed

lemma extract_choom_name_tail:
  assumes "extract_choom_name message = (r, tail)"
  shows "py_strip tail = tail"
proof -
  let ?m = "py_strip message"
  have m: "py_strip ?m = ?m" by (rule py_strip_idem)
  from assms consider
      (colon) n where "pattern_separator CHR '':'' ?m = Some (n, tail)"
    | (comma) n where "pattern_separator CHR '','' ?m = Some (n, tail)"
    | (at) n where "pattern_at ?m = Some (n, tail)"
    | (scan) n where "scan_words (py_words ?m) 0 (take 5 (py_words ?m)) = Some (n, tail)"
    | (none) "tail = ?m"
    by (auto simp: extract_choom_name_def Let_def split: option.splits prod.splits)
  then show ?thesis
  proof cases
    case colon
    then show ?thesis by (rule pattern_separator_tail)
  next
    case comma
    then show ?thesis by (rule pattern_separator_tail)
  next
    case at
    then show ?thesis using m by (rule pattern_at_tail)
  next
    case scan
    then show ?thesis by (rule scan_words_tail)
  next
    case none
    then show ?thesis using m by simp
  qed
qed

lemma extract_choom_name_none:
  assumes "fst (extract_choom_name message) = None"
  shows "extract_choom_name message = (None, py_strip message)"
  using assms
  by (auto simp: extract_choom_name_def Let_def split: option.splits prod.splits)

text \<open>
  Claim C5, as stated, fails: the tail of a message can itself address a companion. From
  \<open>Genesis: Lissa, hi\<close> the resolver takes \<open>Genesis\<close> and leaves \<open>Lissa, hi\<close>, from which it
  takes \<open>Lissa\<close> and leaves \<open>hi\<close>.
\<close>

theorem extract_choom_name_counterexample:
  "extract_choom_name ''Genesis: Lissa, hi'' = (Some ''Genesis'', ''Lissa, hi'')
   \<and> extract_choom_name ''Lissa, hi'' = (Some ''Lissa'', ''hi'')"
  by code_simp

text \<open>
  Claim C5, amended. If the resolver returns \<open>(name, tail)\<close> for a message, the tail has no
  whitespace at either end, and whenever the resolver extracts no name from the tail it
  returns the tail unchanged: applied to the tail it returns \<open>(None, tail)\<close>, unless the
  tail itself addresses a companion.
\<close>

theorem extract_choom_name_tail_stable:
  assumes "extract_choom_name message = (Some name, tail)"
  shows "py_strip tail = tail
    \<and> (fst (extract_choom_name tail) = None \<longrightarrow> extract_choom_name tail = (None, tail))"
proof -
  have t: "py_strip tail = tail"
    using assms by (rule extract_choom_name_tail)
  then show ?thesis
    using extract_choom_name_none [of tail] by simp
qed

theorem extract_choom_name_tail_stable_witness:
  "extract_choom_name ''Hey Lissa what are you doing '' = (Some ''Lissa'', ''what are you doing'')
   \<and> extract_choom_name ''what are you doing'' = (None, ''what are you doing'')"
proof -
  have e: "extract_choom_name ''Hey Lissa what are you doing ''
             = (Some ''Lissa'', ''what are you doing'')"
    by code_simp
  have n: "fst (extract_choom_name ''what are you doing'') = None"
    by code_simp
  show ?thesis
    using e n extract_choom_name_tail_stable [OF e] by simp
qed

end
